theory Spec2Isabelle
  imports Complex_Main
begin

section \<open>Cell values\<close>

text \<open>
  A cell as the comparator receives it from a row of a pandas frame: missing (\<open>None\<close> or
  NaN; \<open>pd.isna\<close> and \<open>is None\<close> are always tested together, so both are one value), a
  Python \<open>int\<close>, a finite Python \<open>float\<close>, or a \<open>str\<close> (booleans and timestamps are
  not among the cells). A float is modelled by the rational number it denotes:
  \<open>float(s)\<close> of a decimal literal is the literal's exact value and \<open>int(x)\<close> truncates
  it toward zero, so the rounding to a binary double and the overflow to \<open>inf\<close> are not
  in the model. Strings are ASCII, one \<open>char\<close> per character.
\<close>

datatype cell = CNone | CInt int | CFloat rat | CStr string

text \<open>What \<open>norm_for_json\<close> puts into an output row.\<close>

datatype jval = JInt int | JFloat rat | JStr string

text \<open>
  The two library functions whose results the comparator only passes on: \<open>str\<close> of a
  float, and \<open>pd.to_datetime(v, errors="coerce", dayfirst=True)\<close> followed by
  \<open>.date().isoformat()\<close> (\<open>None\<close> when the value is NaT or the call raises). Every
  function below that reaches one of them takes them as the parameter \<open>L\<close>.
\<close>

record pylib =
  float_str :: "rat \<Rightarrow> string"
  to_datetime :: "cell \<Rightarrow> string option"

subsection \<open>Strings\<close>

definition is_space :: "char \<Rightarrow> bool" where
  "is_space c = (c \<in> set [CHR 0x09, CHR 0x0A, CHR 0x0B, CHR 0x0C, CHR 0x0D,
                            CHR 0x1C, CHR 0x1D, CHR 0x1E, CHR 0x1F, CHR '' ''])"

definition strip :: "string \<Rightarrow> string" where
  "strip s = rev (dropWhile is_space (rev (dropWhile is_space s)))"

definition lower_char :: "char \<Rightarrow> char" where
  "lower_char c =
     (case map_of (zip ''ABCDEFGHIJKLMNOPQRSTUVWXYZ'' ''abcdefghijklmnopqrstuvwxyz'') c of
        Some d \<Rightarrow> d
      | None \<Rightarrow> c)"

definition lower :: "string \<Rightarrow> string" where
  "lower s = map lower_char s"

definition is_digit :: "char \<Rightarrow> bool" where
  "is_digit c = (c \<in> set ''0123456789'')"

definition digit_val :: "char \<Rightarrow> nat" where
  "digit_val c = of_char c - 48"

definition digits_val :: "string \<Rightarrow> nat" where
  "digits_val ds = foldl (\<lambda>n c. 10 * n + digit_val c) 0 ds"

text \<open>\<open>str(n)\<close> of a Python int.\<close>

fun nat_digits :: "nat \<Rightarrow> string" where
  "nat_digits n =
     (if n < 10 then [''0123456789'' ! n]
      else nat_digits (n div 10) @ [''0123456789'' ! (n mod 10)])"

declare nat_digits.simps [simp del]

definition str_int :: "int \<Rightarrow> string" where
  "str_int n = (if n < 0 then CHR ''-'' # nat_digits (nat (- n)) else nat_digits (nat n))"

text \<open>\<open>str(value)\<close> of a value that is not missing.\<close>

definition py_str :: "pylib \<Rightarrow> cell \<Rightarrow> string" where
  "py_str L v =
     (case v of
        CNone \<Rightarrow> ''nan''
      | CInt n \<Rightarrow> str_int n
      | CFloat q \<Rightarrow> float_str L q
      | CStr s \<Rightarrow> s)"

text \<open>
  \<open>float(s)\<close> on a string of digits, dots and minus signs (all that the regular
  expression of \<open>coerce_numeric\<close> leaves): an optional minus sign, then digits with at
  most one dot and at least one digit; anything else raises \<open>ValueError\<close>, which is
  \<open>None\<close> here.
\<close>

definition py_float :: "string \<Rightarrow> rat option" where
  "py_float s =
     (let neg = (s \<noteq> [] \<and> hd s = CHR ''-'');
          body = (if neg then tl s else s);
          ip = takeWhile is_digit body;
          rest = dropWhile is_digit body;
          sgn = (if neg then - 1 else 1)
      in case rest of
           [] \<Rightarrow> if ip = [] then None else Some (sgn * of_nat (digits_val ip))
         | c # fp \<Rightarrow>
             if c = CHR ''.'' \<and> list_all is_digit fp \<and> (ip \<noteq> [] \<or> fp \<noteq> [])
             then Some (sgn * (of_nat (digits_val ip) + of_nat (digits_val fp) / 10 ^ length fp))
             else None)"

text \<open>\<open>int(x)\<close> of a float: truncation toward zero.\<close>

definition py_int :: "rat \<Rightarrow> int" where
  "py_int q = (if 0 \<le> q then \<lfloor>q\<rfloor> else \<lceil>q\<rceil>)"

section \<open>Value normalizer and tolerant comparator\<close>

text \<open>
  \<open>coerce_numeric\<close>, \<open>to_int_or_none\<close>, \<open>norm_text\<close>, \<open>values_equal\<close>,
  \<open>values_different\<close>, \<open>row_key\<close>, \<open>build_key_index\<close> and \<open>norm_for_json\<close> stand
  with the same text in \<open>excel_comparator_india.py\<close> and in \<open>utils.py\<close>; each has one
  definition here.
\<close>

definition NUMERIC_TOLERANCE :: rat where
  "NUMERIC_TOLERANCE = 1"

definition coerce_numeric :: "cell \<Rightarrow> rat option" where
  "coerce_numeric v =
     (case v of
        CNone \<Rightarrow> None
      | CInt n \<Rightarrow> Some (of_int n)
      | CFloat q \<Rightarrow> Some q
      | CStr raw \<Rightarrow>
          (let s = strip raw in
           if s = [] then None
           else
             (let s1 = (if hd s = CHR ''('' \<and> last s = CHR '')''
                        then CHR ''-'' # butlast (tl s) else s);
                  s2 = filter (\<lambda>c. c \<noteq> CHR '','') s1;
                  s3 = filter (\<lambda>c. is_digit c \<or> c = CHR ''.'' \<or> c = CHR ''-'') s2
              in py_float s3)))"

definition to_int_or_none :: "cell \<Rightarrow> int option" where
  "to_int_or_none v =
     (case coerce_numeric v of
        None \<Rightarrow> None
      | Some num \<Rightarrow> Some (py_int num))"

definition norm_text :: "pylib \<Rightarrow> cell \<Rightarrow> string" where
  "norm_text L v = (if v = CNone then [] else strip (py_str L v))"

definition values_equal :: "pylib \<Rightarrow> rat \<Rightarrow> cell \<Rightarrow> cell \<Rightarrow> bool" where
  "values_equal L tol orig_val web_val =
     (case (to_int_or_none orig_val, to_int_or_none web_val) of
        (Some oi, Some wi) \<Rightarrow> of_int \<bar>wi - oi\<bar> \<le> tol
      | _ \<Rightarrow> norm_text L orig_val = norm_text L web_val)"

definition values_different :: "pylib \<Rightarrow> rat \<Rightarrow> cell \<Rightarrow> cell \<Rightarrow> bool" where
  "values_different L tol orig_val web_val = (\<not> values_equal L tol orig_val web_val)"

definition norm_for_json :: "cell \<Rightarrow> jval" where
  "norm_for_json v =
     (case v of
        CNone \<Rightarrow> JStr []
      | CInt n \<Rightarrow> JInt n
      | CFloat q \<Rightarrow> JFloat q
      | CStr s \<Rightarrow> JStr s)"


section \<open>Frames and rows\<close>

text \<open>
  A row of a frame (a pandas \<open>Series\<close>) is read by column label: \<open>row[col]\<close> is
  \<open>row col\<close>. The labels a row is indexed by are the columns of its frame, so a frame is
  its column labels and its rows in order; \<open>df[cols]\<close> keeps the rows and narrows the
  labels. Every row position is its index label: \<open>read_excel\<close> numbers the rows from 0
  and \<open>reset_index(drop=True)\<close> renumbers them after \<open>drop_duplicates\<close>.
\<close>

type_synonym row = "string \<Rightarrow> cell"

record dataframe =
  columns :: "string list"
  rows :: "row list"

definition select_cols :: "dataframe \<Rightarrow> string list \<Rightarrow> dataframe" where
  "select_cols df cols = \<lparr>columns = cols, rows = rows df\<rparr>"

text \<open>
  \<open>df.drop_duplicates(subset=key_cols, keep="first")\<close>, with the key values seen so far;
  two rows are duplicates when their cells in the key columns are the same values. The
  call is made on frames that have the key columns, where it does not raise, so the
  source's \<open>except\<close> branch (which only renumbers the rows) has no part here.
\<close>

fun drop_dups :: "string list \<Rightarrow> cell list list \<Rightarrow> row list \<Rightarrow> row list" where
  "drop_dups key_cols seen [] = []"
| "drop_dups key_cols seen (r # rs) =
     (if map r key_cols \<in> set seen then drop_dups key_cols seen rs
      else r # drop_dups key_cols (map r key_cols # seen) rs)"

definition drop_duplicates :: "string list \<Rightarrow> dataframe \<Rightarrow> dataframe" where
  "drop_duplicates key_cols df = \<lparr>columns = columns df, rows = drop_dups key_cols [] (rows df)\<rparr>"

section \<open>Row keys\<close>

datatype key_part = KNum int | KStr string

fun row_key_loop :: "pylib \<Rightarrow> int \<Rightarrow> row \<Rightarrow> string list \<Rightarrow> key_part list \<Rightarrow> key_part list" where
  "row_key_loop L max_parts row [] key_parts = key_parts"
| "row_key_loop L max_parts row (col # rest) key_parts =
     (let key_parts' =
            (case to_int_or_none (row col) of
               Some iv \<Rightarrow> key_parts @ [KNum iv]
             | None \<Rightarrow>
                 (let sv = norm_text L (row col) in
                  if sv \<noteq> [] then key_parts @ [KStr (lower sv)] else key_parts))
      in if max_parts \<le> int (length key_parts') then key_parts'
         else row_key_loop L max_parts row rest key_parts')"

definition row_key :: "pylib \<Rightarrow> string list \<Rightarrow> row \<Rightarrow> int \<Rightarrow> key_part list" where
  "row_key L index row max_parts = row_key_loop L max_parts row index []"

text \<open>\<open>idx.setdefault(k, []).append(i)\<close> on a dict kept in insertion order.\<close>

fun setdefault_append :: "('k \<times> nat list) list \<Rightarrow> 'k \<Rightarrow> nat \<Rightarrow> ('k \<times> nat list) list" where
  "setdefault_append [] k i = [(k, [i])]"
| "setdefault_append ((k', l) # d) k i =
     (if k' = k then (k', l @ [i]) # d else (k', l) # setdefault_append d k i)"

fun build_key_index_loop ::
  "pylib \<Rightarrow> string list \<Rightarrow> int \<Rightarrow> (nat \<times> row) list \<Rightarrow> (key_part list \<times> nat list) list
     \<Rightarrow> (key_part list \<times> nat list) list" where
  "build_key_index_loop L index max_parts [] idx = idx"
| "build_key_index_loop L index max_parts ((i, row) # rest) idx =
     build_key_index_loop L index max_parts rest
       (setdefault_append idx (row_key L index row max_parts) i)"

definition build_key_index :: "pylib \<Rightarrow> dataframe \<Rightarrow> int \<Rightarrow> (key_part list \<times> nat list) list" where
  "build_key_index L df max_parts =
     build_key_index_loop L (columns df) max_parts (enumerate 0 (rows df)) []"

definition acct_key :: "pylib \<Rightarrow> cell \<Rightarrow> string option" where
  "acct_key L v =
     (if v = CNone then None
      else
        (let s = strip (py_str L v) in
         if s = [] then None
         else (case to_int_or_none (CStr s) of
                 Some num \<Rightarrow> Some (str_int num)
               | None \<Rightarrow> Some (lower s))))"

text \<open>\<open>sub in s\<close> and \<open>sep.join(parts)\<close> on strings.\<close>

fun contains :: "string \<Rightarrow> string \<Rightarrow> bool" where
  "contains sub [] = (sub = [])"
| "contains sub (c # s) = (take (length sub) (c # s) = sub \<or> contains sub s)"

fun join :: "string \<Rightarrow> string list \<Rightarrow> string" where
  "join sep [] = []"
| "join sep [p] = p"
| "join sep (p # q # ps) = p @ sep @ join sep (q # ps)"

fun composite_parts ::
  "pylib \<Rightarrow> string list \<Rightarrow> row \<Rightarrow> string list \<Rightarrow> string list \<Rightarrow> string list option" where
  "composite_parts L index row [] parts = Some parts"
| "composite_parts L index row (col # rest) parts =
     (if col \<notin> set index then None
      else if row col = CNone then None
      else
        (let s = strip (py_str L (row col)) in
         if s = [] then None
         else if lower col = ''account number'' then
           composite_parts L index row rest
             (parts @ [case to_int_or_none (row col) of
                         Some num \<Rightarrow> str_int num
                       | None \<Rightarrow> lower s])
         else if contains ''date'' (lower col) then
           composite_parts L index row rest
             (parts @ [case to_datetime L (row col) of
                         None \<Rightarrow> lower s
                       | Some isodate \<Rightarrow> isodate])
         else composite_parts L index row rest (parts @ [lower s])))"

definition composite_acct_key :: "pylib \<Rightarrow> string list \<Rightarrow> row \<Rightarrow> string list \<Rightarrow> string option" where
  "composite_acct_key L index row key_cols =
     (case composite_parts L index row key_cols [] of
        None \<Rightarrow> None
      | Some parts \<Rightarrow> Some (join ''|'' parts))"


section \<open>Row matcher and diff computer\<close>

text \<open>
  What one sheet's comparison accumulates: the four structured row lists and the two
  counters. The styled worksheet that the source fills beside them is presentation
  and is left out, and with it whatever the worksheet library may raise.
\<close>

record buckets =
  structured_common :: "jval list list"
  structured_diff :: "jval list list"
  structured_only_orig :: "jval list list"
  structured_only_web :: "jval list list"
  rows_compared :: nat
  diff_count :: nat

definition tripled_headers :: "string list \<Rightarrow> jval list" where
  "tripled_headers common_cols =
     concat (map (\<lambda>col. [JStr (col @ '' (Original)''), JStr (col @ '' (Website)''),
                           JStr (col @ '' (Diff)'')]) common_cols)"

definition make_tripled_headers :: "string list \<Rightarrow> buckets" where
  "make_tripled_headers common_cols =
     \<lparr>structured_common = [tripled_headers common_cols],
      structured_diff = [tripled_headers common_cols],
      structured_only_orig = [tripled_headers common_cols],
      structured_only_web = [tripled_headers common_cols],
      rows_compared = 0, diff_count = 0\<rparr>"

definition simple_headers :: "string list \<Rightarrow> jval list" where
  "simple_headers common_cols = map JStr common_cols @ [JStr ''Row Status'']"

definition make_simple_headers :: "string list \<Rightarrow> buckets" where
  "make_simple_headers common_cols =
     \<lparr>structured_common = [simple_headers common_cols],
      structured_diff = [simple_headers common_cols],
      structured_only_orig = [simple_headers common_cols],
      structured_only_web = [simple_headers common_cols],
      rows_compared = 0, diff_count = 0\<rparr>"

subsection \<open>Rows with original, website and diff columns\<close>

definition only_orig_triple :: "string list \<Rightarrow> row \<Rightarrow> jval list" where
  "only_orig_triple common_cols orig_row =
     concat (map (\<lambda>col. [norm_for_json (orig_row col), JStr [], JStr ''Only in Original''])
               common_cols)"

definition only_web_triple :: "string list \<Rightarrow> row \<Rightarrow> jval list" where
  "only_web_triple common_cols web_row =
     concat (map (\<lambda>col. [JStr [], norm_for_json (web_row col), JStr ''Only in Website''])
               common_cols)"

definition common_triple :: "string list \<Rightarrow> row \<Rightarrow> jval list" where
  "common_triple common_cols orig_row =
     concat (map (\<lambda>col. [norm_for_json (orig_row col), norm_for_json (orig_row col), JStr []])
               common_cols)"

text \<open>The loop over the columns of a matched pair that is not all the same.\<close>

fun diff_loop :: "pylib \<Rightarrow> row \<Rightarrow> row \<Rightarrow> string list \<Rightarrow> jval list \<times> nat \<Rightarrow> jval list \<times> nat" where
  "diff_loop L orig_row web_row [] st = st"
| "diff_loop L orig_row web_row (col # rest) (triple_row, row_diffs_here) =
     (let o_val = orig_row col;
          w_val = web_row col;
          is_diff = values_different L NUMERIC_TOLERANCE o_val w_val;
          diff_val =
            (if is_diff then
               (case (coerce_numeric o_val, coerce_numeric w_val) of
                  (Some o_num, Some w_num) \<Rightarrow> CFloat (w_num - o_num)
                | _ \<Rightarrow> CStr ''DIFF'')
             else CStr [])
      in diff_loop L orig_row web_row rest
           (triple_row @ [norm_for_json o_val, norm_for_json w_val, norm_for_json diff_val],
            if is_diff then row_diffs_here + 1 else row_diffs_here))"

definition all_same :: "pylib \<Rightarrow> string list \<Rightarrow> row \<Rightarrow> row \<Rightarrow> bool" where
  "all_same L common_cols orig_row web_row =
     list_all (\<lambda>col. values_equal L NUMERIC_TOLERANCE (orig_row col) (web_row col)) common_cols"

definition add_only_orig :: "string list \<Rightarrow> buckets \<Rightarrow> row \<Rightarrow> buckets" where
  "add_only_orig common_cols st orig_row =
     st\<lparr>structured_only_orig := structured_only_orig st @ [only_orig_triple common_cols orig_row],
        rows_compared := rows_compared st + 1,
        diff_count := diff_count st + 1\<rparr>"

definition add_only_web :: "string list \<Rightarrow> buckets \<Rightarrow> row \<Rightarrow> buckets" where
  "add_only_web common_cols st web_row =
     st\<lparr>structured_only_web := structured_only_web st @ [only_web_triple common_cols web_row],
        rows_compared := rows_compared st + 1,
        diff_count := diff_count st + 1\<rparr>"

text \<open>
  A matched pair: the same statements follow \<open>web_row = df_web.loc[...]\<close> in the
  Gain Summary loop and in the loop over \<open>orig_map\<close>.
\<close>

definition add_matched :: "pylib \<Rightarrow> string list \<Rightarrow> buckets \<Rightarrow> row \<Rightarrow> row \<Rightarrow> buckets" where
  "add_matched L common_cols st orig_row web_row =
     (if all_same L common_cols orig_row web_row then
        st\<lparr>structured_common := structured_common st @ [common_triple common_cols orig_row]\<rparr>
      else
        (case diff_loop L orig_row web_row common_cols ([], 0) of
           (triple_row, row_diffs_here) \<Rightarrow>
             st\<lparr>structured_diff := structured_diff st @ [triple_row],
                rows_compared := rows_compared st + 1,
                diff_count := diff_count st + row_diffs_here\<rparr>))"

subsection \<open>Indexed matching by the generic key (Gain Summary)\<close>

text \<open>\<open>match_indices = web_key_index.get(k, [])\<close>, then
  \<open>match_indices[0] if match_indices else None\<close>.\<close>

definition match_idx :: "(key_part list \<times> nat list) list \<Rightarrow> key_part list \<Rightarrow> nat option" where
  "match_idx web_key_index k =
     (case (case map_of web_key_index k of None \<Rightarrow> [] | Some l \<Rightarrow> l) of
        [] \<Rightarrow> None
      | i # _ \<Rightarrow> Some i)"

definition gs_orig_step ::
  "pylib \<Rightarrow> string list \<Rightarrow> dataframe \<Rightarrow> dataframe \<Rightarrow> (key_part list \<times> nat list) list
     \<Rightarrow> buckets \<Rightarrow> row \<Rightarrow> buckets" where
  "gs_orig_step L common_cols df_orig df_web web_key_index st orig_row =
     (case match_idx web_key_index (row_key L (columns df_orig) orig_row 2) of
        None \<Rightarrow> add_only_orig common_cols st orig_row
      | Some i \<Rightarrow> add_matched L common_cols st orig_row (rows df_web ! i))"

definition gs_web_step ::
  "pylib \<Rightarrow> string list \<Rightarrow> dataframe \<Rightarrow> key_part list list \<Rightarrow> buckets \<Rightarrow> row \<Rightarrow> buckets" where
  "gs_web_step L common_cols df_web orig_keys_set st web_row =
     (if row_key L (columns df_web) web_row 2 \<in> set orig_keys_set then st
      else add_only_web common_cols st web_row)"

definition gain_summary_match :: "pylib \<Rightarrow> string list \<Rightarrow> dataframe \<Rightarrow> dataframe \<Rightarrow> buckets \<Rightarrow> buckets" where
  "gain_summary_match L common_cols df_orig df_web st =
     (let web_key_index = build_key_index L df_web 2;
          orig_keys_set = map (\<lambda>r. row_key L (columns df_orig) r 2) (rows df_orig);
          st1 = foldl (gs_orig_step L common_cols df_orig df_web web_key_index) st (rows df_orig)
      in foldl (gs_web_step L common_cols df_web orig_keys_set) st1 (rows df_web))"

subsection \<open>Matching by account key or composite key\<close>

text \<open>
  \<open>orig_map\<close> and \<open>web_map\<close>: a dict from key to row index in insertion order, a row
  entering only when its key is not \<open>None\<close> and not yet a key of the dict.
\<close>

fun build_map :: "(row \<Rightarrow> string option) \<Rightarrow> (nat \<times> row) list \<Rightarrow> (string \<times> nat) list
    \<Rightarrow> (string \<times> nat) list" where
  "build_map key [] m = m"
| "build_map key ((i, r) # rest) m =
     (case key r of
        None \<Rightarrow> build_map key rest m
      | Some k \<Rightarrow>
          if map_of m k = None then build_map key rest (m @ [(k, i)])
          else build_map key rest m)"

text \<open>The key of a row in the two loops that fill the maps: \<open>acct_key\<close> of the account
  number when \<open>key_cols\<close> is that column alone, \<open>composite_acct_key\<close> otherwise.\<close>

definition frame_key :: "pylib \<Rightarrow> string list \<Rightarrow> dataframe \<Rightarrow> row \<Rightarrow> string option" where
  "frame_key L key_cols df r =
     (if key_cols = [''Account Number''] then acct_key L (r ''Account Number'')
      else composite_acct_key L (columns df) r key_cols)"

definition map_orig_step ::
  "pylib \<Rightarrow> string list \<Rightarrow> dataframe \<Rightarrow> dataframe \<Rightarrow> (string \<times> nat) list \<Rightarrow> buckets
     \<Rightarrow> string \<times> nat \<Rightarrow> buckets" where
  "map_orig_step L common_cols df_orig df_web web_map st item =
     (case item of
        (acc, orig_idx) \<Rightarrow>
          (case map_of web_map acc of
             None \<Rightarrow> add_only_orig common_cols st (rows df_orig ! orig_idx)
           | Some web_idx \<Rightarrow>
               add_matched L common_cols st (rows df_orig ! orig_idx) (rows df_web ! web_idx)))"

definition map_web_step ::
  "string list \<Rightarrow> dataframe \<Rightarrow> (string \<times> nat) list \<Rightarrow> buckets \<Rightarrow> string \<times> nat \<Rightarrow> buckets" where
  "map_web_step common_cols df_web orig_map st item =
     (case item of
        (acc, web_idx) \<Rightarrow>
          if map_of orig_map acc \<noteq> None then st
          else add_only_web common_cols st (rows df_web ! web_idx))"

definition map_match ::
  "pylib \<Rightarrow> string list \<Rightarrow> string list \<Rightarrow> dataframe \<Rightarrow> dataframe \<Rightarrow> buckets \<Rightarrow> buckets" where
  "map_match L common_cols key_cols df_orig df_web st =
     (let orig_map = build_map (frame_key L key_cols df_orig) (enumerate 0 (rows df_orig)) [];
          web_map = build_map (frame_key L key_cols df_web) (enumerate 0 (rows df_web)) [];
          st1 = foldl (map_orig_step L common_cols df_orig df_web web_map) st orig_map
      in foldl (map_web_step common_cols df_web orig_map) st1 web_map)"

subsection \<open>General compare logic: rows with a status column\<close>

definition simple_row :: "string list \<Rightarrow> row \<Rightarrow> string \<Rightarrow> jval list" where
  "simple_row common_cols r status = map (\<lambda>col. norm_for_json (r col)) common_cols @ [JStr status]"

fun count_diffs :: "pylib \<Rightarrow> row \<Rightarrow> row \<Rightarrow> string list \<Rightarrow> jval list \<times> nat \<Rightarrow> jval list \<times> nat" where
  "count_diffs L orig_row web_row [] st = st"
| "count_diffs L orig_row web_row (col # rest) (rowvals, row_diffs_here) =
     count_diffs L orig_row web_row rest
       (rowvals @ [norm_for_json (orig_row col)],
        if values_different L NUMERIC_TOLERANCE (orig_row col) (web_row col)
        then row_diffs_here + 1 else row_diffs_here)"

definition gen_orig_step ::
  "pylib \<Rightarrow> string list \<Rightarrow> dataframe \<Rightarrow> dataframe \<Rightarrow> (key_part list \<times> nat list) list
     \<Rightarrow> buckets \<Rightarrow> row \<Rightarrow> buckets" where
  "gen_orig_step L common_cols df_orig df_web web_key_index st orig_row =
     (case match_idx web_key_index (row_key L (columns df_orig) orig_row 2) of
        None \<Rightarrow>
          st\<lparr>structured_only_orig :=
               structured_only_orig st @ [simple_row common_cols orig_row ''Only in Original''],
             rows_compared := rows_compared st + 1,
             diff_count := diff_count st + 1\<rparr>
      | Some i \<Rightarrow>
          (let web_row = rows df_web ! i in
           if all_same L common_cols orig_row web_row then
             st\<lparr>structured_common :=
                  structured_common st @ [simple_row common_cols orig_row ''Common'']\<rparr>
           else
             (case count_diffs L orig_row web_row common_cols ([], 0) of
                (rowvals, row_diffs_here) \<Rightarrow>
                  st\<lparr>structured_diff := structured_diff st @ [rowvals @ [JStr ''Different'']],
                     rows_compared := rows_compared st + 1,
                     diff_count := diff_count st + row_diffs_here\<rparr>)))"

definition gen_web_step ::
  "pylib \<Rightarrow> string list \<Rightarrow> dataframe \<Rightarrow> key_part list list \<Rightarrow> buckets \<Rightarrow> row \<Rightarrow> buckets" where
  "gen_web_step L common_cols df_web orig_key_set st web_row =
     (if row_key L (columns df_web) web_row 2 \<in> set orig_key_set then st
      else
        st\<lparr>structured_only_web :=
             structured_only_web st @ [simple_row common_cols web_row ''Only in Website''],
           rows_compared := rows_compared st + 1,
           diff_count := diff_count st + 1\<rparr>)"

definition general_match :: "pylib \<Rightarrow> string list \<Rightarrow> dataframe \<Rightarrow> dataframe \<Rightarrow> buckets \<Rightarrow> buckets" where
  "general_match L common_cols df_orig df_web st =
     (let web_key_index = build_key_index L df_web 2;
          orig_key_set = map (\<lambda>r. row_key L (columns df_orig) r 2) (rows df_orig);
          st1 = foldl (gen_orig_step L common_cols df_orig df_web web_key_index) st (rows df_orig)
      in foldl (gen_web_step L common_cols df_web orig_key_set) st1 (rows df_web))"

section \<open>Reconciliation orchestrator\<close>

text \<open>
  A workbook is what \<open>pd.read_excel(bytes, sheet_name=..., header=...)\<close> makes of it: for
  a sheet name and a header row index, either the frame or the message of the exception
  raised (no such sheet, a sheet that cannot be parsed). The column labels of a frame
  that \<open>read_excel\<close> returns are strings.
\<close>

type_synonym workbook = "string \<Rightarrow> int \<Rightarrow> string + dataframe"

text \<open>One entry of \<open>sheets_structured\<close>; \<open>error\<close> is the key that only an error entry
  has. The entry's \<open>_main_ws_name\<close>, the title of the styled worksheet, is left out
  with the worksheet.\<close>

record sheet_entry =
  common_rows :: "jval list list"
  different_rows :: "jval list list"
  only_in_original_rows :: "jval list list"
  only_in_website_rows :: "jval list list"
  entry_rows_compared :: nat
  cells_different :: nat
  error :: "string option"

definition entry_of :: "buckets \<Rightarrow> sheet_entry" where
  "entry_of st =
     \<lparr>common_rows = structured_common st,
      different_rows = structured_diff st,
      only_in_original_rows = structured_only_orig st,
      only_in_website_rows = structured_only_web st,
      entry_rows_compared = rows_compared st,
      cells_different = diff_count st,
      error = None\<rparr>"

definition summary_row :: "string \<Rightarrow> buckets \<Rightarrow> jval list" where
  "summary_row sheet_name st =
     [JStr sheet_name, JInt (int (rows_compared st)), JInt (int (diff_count st)),
      JInt (int (length (structured_common st))),
      JInt (int (length (structured_only_orig st))),
      JInt (int (length (structured_only_web st)))]"

definition empty_buckets :: buckets where
  "empty_buckets =
     \<lparr>structured_common = [], structured_diff = [], structured_only_orig = [],
      structured_only_web = [], rows_compared = 0, diff_count = 0\<rparr>"

definition tripled_sheets :: "string list" where
  "tripled_sheets = [''Gain Summary'', ''ScheduleFA'', ''transaction_details'',
                     ''transaction_details_by_gain'']"

definition preferred_keys :: "string list" where
  "preferred_keys = [''Account Number'', ''Investment Name'', ''Purchase Date'']"

text \<open>\<open>use_composite\<close> and \<open>key_cols\<close>: the preferred keys when both frames have all of
  them, the account number alone otherwise.\<close>

definition choose_key_cols :: "dataframe \<Rightarrow> dataframe \<Rightarrow> string list" where
  "choose_key_cols df_orig df_web =
     (let use_composite =
            list_all (\<lambda>k. k \<in> set (columns df_orig) \<and> k \<in> set (columns df_web))
              preferred_keys
      in if use_composite then preferred_keys else [''Account Number''])"

text \<open>The comparison of the two frames of a sheet once the common columns are known
  and not empty.\<close>

definition compare_frames :: "pylib \<Rightarrow> string \<Rightarrow> string list \<Rightarrow> dataframe \<Rightarrow> dataframe \<Rightarrow> buckets" where
  "compare_frames L sheet_name common_cols df_orig0 df_web0 =
     (let df_orig = select_cols df_orig0 common_cols;
          df_web = select_cols df_web0 common_cols
      in if sheet_name \<in> set tripled_sheets \<and> ''Account Number'' \<in> set (columns df_orig)
            \<and> ''Account Number'' \<in> set (columns df_web)
         then
           (let key_cols = choose_key_cols df_orig df_web;
                df_orig1 = drop_duplicates key_cols df_orig;
                df_web1 = drop_duplicates key_cols df_web
            in if sheet_name = ''Gain Summary''
               then gain_summary_match L common_cols df_orig1 df_web1
                      (make_tripled_headers common_cols)
               else map_match L common_cols key_cols df_orig1 df_web1
                      (make_tripled_headers common_cols))
         else general_match L common_cols df_orig df_web (make_simple_headers common_cols))"

text \<open>The body of the \<open>try\<close> for one sheet: \<open>Inl\<close> carries \<open>str(e)\<close> of the exception
  that leaves it (for the \<open>KeyError\<close> of \<open>cfg['header_row']\<close>, the key in single
  quotes), \<open>Inr\<close> the entry and the summary row.\<close>

definition process_sheet ::
  "pylib \<Rightarrow> workbook \<Rightarrow> workbook \<Rightarrow> string \<Rightarrow> (string \<times> int) list
     \<Rightarrow> string + (sheet_entry \<times> jval list)" where
  "process_sheet L original website sheet_name cfg =
     (case map_of cfg ''header_row'' of
        None \<Rightarrow> Inl (CHR 0x27 # ''header_row'' @ [CHR 0x27])
      | Some header_row \<Rightarrow>
          (case original sheet_name (header_row - 1) of
             Inl e \<Rightarrow> Inl e
           | Inr df_orig \<Rightarrow>
               (case website sheet_name (header_row - 1) of
                  Inl e \<Rightarrow> Inl e
                | Inr df_web \<Rightarrow>
                    (let cc = filter (\<lambda>c. c \<in> set (columns df_web)) (columns df_orig);
                         common_cols =
                           (if sheet_name \<in> set [''ScheduleFA'', ''transaction_details'',
                                                   ''transaction_details_by_gain'']
                            then filter (\<lambda>c. c \<noteq> ''Sl. No.'') cc else cc);
                         st = (if common_cols = [] then empty_buckets
                               else compare_frames L sheet_name common_cols df_orig df_web)
                     in Inr (entry_of st,
                             if common_cols = [] then
                               [JStr sheet_name, JInt 0, JInt 0, JInt 0, JInt 0, JInt 0]
                             else summary_row sheet_name st)))))"

definition error_entry :: "string \<Rightarrow> sheet_entry" where
  "error_entry e =
     \<lparr>common_rows = [], different_rows = [], only_in_original_rows = [],
      only_in_website_rows = [], entry_rows_compared = 0, cells_different = 0,
      error = Some e\<rparr>"

text \<open>\<open>d[k] = v\<close> on a dict kept in insertion order.\<close>

fun dict_set :: "('k \<times> 'v) list \<Rightarrow> 'k \<Rightarrow> 'v \<Rightarrow> ('k \<times> 'v) list" where
  "dict_set [] k v = [(k, v)]"
| "dict_set ((k', v') # d) k v = (if k' = k then (k', v) # d else (k', v') # dict_set d k v)"

record comparison =
  summary_rows :: "jval list list"
  sheets :: "(string \<times> sheet_entry) list"

text \<open>The loop over \<open>sheets_config.items()\<close> with its \<open>try\<close> and \<open>except\<close>.\<close>

fun run_sheets ::
  "pylib \<Rightarrow> workbook \<Rightarrow> workbook \<Rightarrow> (string \<times> (string \<times> int) list) list \<Rightarrow> comparison
     \<Rightarrow> comparison" where
  "run_sheets L original website [] res = res"
| "run_sheets L original website ((sheet_name, cfg) # rest) res =
     (case process_sheet L original website sheet_name cfg of
        Inr (entry, srow) \<Rightarrow>
          run_sheets L original website rest
            \<lparr>summary_rows = summary_rows res @ [srow],
             sheets = dict_set (sheets res) sheet_name entry\<rparr>
      | Inl e \<Rightarrow>
          run_sheets L original website rest
            \<lparr>summary_rows = summary_rows res @
               [[JStr sheet_name, JInt 0, JStr (''ERROR: '' @ e), JInt 0, JInt 0, JInt 0]],
             sheets = dict_set (sheets res) sheet_name (error_entry e)\<rparr>)"

definition summary_header :: "jval list" where
  "summary_header = [JStr ''Sheet'', JStr ''Rows Compared'', JStr ''Cells Different'',
                     JStr ''Common Rows'', JStr ''Only in Original'', JStr ''Only in Website'']"

definition default_config_India :: "(string \<times> (string \<times> int) list) list" where
  "default_config_India =
     [(''Gain Summary'', [(''header_row'', 2), (''data_start_row'', 3)]),
      (''ScheduleFA'', [(''header_row'', 8), (''data_start_row'', 8)]),
      (''transaction_details'', [(''header_row'', 2), (''data_start_row'', 3)]),
      (''transaction_details_by_gain'', [(''header_row'', 2), (''data_start_row'', 3)])]"

text \<open>
  \<open>compare_excel_with_gain_summary_inline_India\<close> of \<open>excel_comparator_india.py\<close>, as
  far as \<open>summary_rows\<close> and \<open>sheets\<close> of its result. Opening the two workbooks for
  their cell styles before the loop and writing the output workbook (\<open>excel_bytes\<close>)
  after it are presentation: both documents are taken to open, and the writing is left
  out.
\<close>

definition compare_excel_with_gain_summary_inline_India ::
  "pylib \<Rightarrow> workbook \<Rightarrow> workbook \<Rightarrow> (string \<times> (string \<times> int) list) list option \<Rightarrow> comparison" where
  "compare_excel_with_gain_summary_inline_India L original website sheets_config =
     run_sheets L original website
       (case sheets_config of None \<Rightarrow> default_config_India | Some c \<Rightarrow> c)
       \<lparr>summary_rows = [summary_header], sheets = []\<rparr>"

definition default_config :: "(string \<times> (string \<times> int) list) list" where
  "default_config =
     [(''Gain Summary'', [(''header_row'', 2), (''data_start_row'', 3)]),
      (''8938'', [(''header_row'', 6), (''data_start_row'', 7)]),
      (''FBAR'', [(''header_row'', 2), (''data_start_row'', 3)])]"

text \<open>
  \<open>compare_excel_with_gain_summary_inline\<close> of \<open>utils.py\<close>: it sets the default
  configuration, opens the workbooks, starts \<open>summary_rows\<close> and \<open>sheets_structured\<close>
  and returns them as they are; no sheet is read.
\<close>

definition compare_excel_with_gain_summary_inline ::
  "pylib \<Rightarrow> workbook \<Rightarrow> workbook \<Rightarrow> (string \<times> (string \<times> int) list) list option \<Rightarrow> comparison" where
  "compare_excel_with_gain_summary_inline L original website sheets_config =
     (let sheets_config' = (case sheets_config of None \<Rightarrow> default_config | Some c \<Rightarrow> c)
      in \<lparr>summary_rows = [summary_header], sheets = []\<rparr>)"


section \<open>What the orchestrator records for one sheet\<close>

text \<open>The entry and the summary row that the loop stores for a sheet, on either way out
  of the \<open>try\<close>.\<close>

definition sheet_outcome ::
  "pylib \<Rightarrow> workbook \<Rightarrow> workbook \<Rightarrow> string \<Rightarrow> (string \<times> int) list \<Rightarrow> sheet_entry" where
  "sheet_outcome L original website sheet_name cfg =
     (case process_sheet L original website sheet_name cfg of
        Inl e \<Rightarrow> error_entry e
      | Inr (entry, srow) \<Rightarrow> entry)"

definition sheet_summary ::
  "pylib \<Rightarrow> workbook \<Rightarrow> workbook \<Rightarrow> string \<Rightarrow> (string \<times> int) list \<Rightarrow> jval list" where
  "sheet_summary L original website sheet_name cfg =
     (case process_sheet L original website sheet_name cfg of
        Inl e \<Rightarrow> [JStr sheet_name, JInt 0, JStr (''ERROR: '' @ e), JInt 0, JInt 0, JInt 0]
      | Inr (entry, srow) \<Rightarrow> srow)"

definition config_of ::
  "(string \<times> (string \<times> int) list) list option \<Rightarrow> (string \<times> (string \<times> int) list) list" where
  "config_of sheets_config = (case sheets_config of None \<Rightarrow> default_config_India | Some c \<Rightarrow> c)"

section \<open>Keyed rows\<close>

text \<open>
  Notions for the proofs about the matching by account or composite key: the rows of a
  frame that have a key, each with its key; the first row of every key not seen before;
  and the two loops over \<open>orig_map\<close> and \<open>web_map\<close> once every index is replaced by the
  row it stands for.
\<close>

definition keyed :: "(row \<Rightarrow> string option) \<Rightarrow> row list \<Rightarrow> (string \<times> row) list" where
  "keyed key rs = concat (map (\<lambda>r. case key r of None \<Rightarrow> [] | Some k \<Rightarrow> [(k, r)]) rs)"

fun firsts :: "string set \<Rightarrow> (string \<times> row) list \<Rightarrow> (string \<times> row) list" where
  "firsts seen [] = []"
| "firsts seen ((k, r) # ps) =
     (if k \<in> seen then firsts seen ps else (k, r) # firsts (insert k seen) ps)"

definition rows_orig_step ::
  "pylib \<Rightarrow> string list \<Rightarrow> (string \<times> row) list \<Rightarrow> buckets \<Rightarrow> string \<times> row \<Rightarrow> buckets" where
  "rows_orig_step L common_cols web_pairs st item =
     (case map_of web_pairs (fst item) of
        None \<Rightarrow> add_only_orig common_cols st (snd item)
      | Some w \<Rightarrow> add_matched L common_cols st (snd item) w)"

definition rows_web_step ::
  "string list \<Rightarrow> (string \<times> row) list \<Rightarrow> buckets \<Rightarrow> string \<times> row \<Rightarrow> buckets" where
  "rows_web_step common_cols orig_pairs st item =
     (if map_of orig_pairs (fst item) \<noteq> None then st
      else add_only_web common_cols st (snd item))"

definition rows_match ::
  "pylib \<Rightarrow> string list \<Rightarrow> (string \<times> row) list \<Rightarrow> (string \<times> row) list \<Rightarrow> buckets \<Rightarrow> buckets" where
  "rows_match L common_cols orig_pairs web_pairs st =
     foldl (rows_web_step common_cols orig_pairs)
       (foldl (rows_orig_step L common_cols web_pairs) st orig_pairs) web_pairs"

definition resolve :: "row list \<Rightarrow> (string \<times> nat) list \<Rightarrow> (string \<times> row) list" where
  "resolve rs m = map (\<lambda>p. (fst p, rs ! snd p)) m"

section \<open>Concrete inputs\<close>

text \<open>
  The values at which the theorems below are instantiated: a library whose \<open>str\<close> of a
  float and whose date parser are fixed, a row given by its labelled cells (a label
  outside them reads as missing), and a workbook with a single sheet.
\<close>

definition plain_lib :: pylib where
  "plain_lib = \<lparr>float_str = (\<lambda>q. ''float''), to_datetime = (\<lambda>v. None)\<rparr>"

definition mk_row :: "(string \<times> cell) list \<Rightarrow> row" where
  "mk_row kvs = (\<lambda>col. case map_of kvs col of Some v \<Rightarrow> v | None \<Rightarrow> CNone)"

definition one_sheet :: "string \<Rightarrow> dataframe \<Rightarrow> workbook" where
  "one_sheet name df = (\<lambda>s h. if s = name then Inr df else Inl ''Worksheet not found'')"

text \<open>The spec's scenario: one original row and one website row with the columns
  \<open>ID\<close> and \<open>Amount\<close>.\<close>

definition scenario_orig_row :: row where
  "scenario_orig_row = mk_row [(''ID'', CInt 100), (''Amount'', CStr ''1,000'')]"

definition scenario_web_row :: row where
  "scenario_web_row = mk_row [(''ID'', CInt 100), (''Amount'', CStr ''999'')]"

definition scenario_orig :: dataframe where
  "scenario_orig = \<lparr>columns = [''ID'', ''Amount''], rows = [scenario_orig_row]\<rparr>"

definition scenario_web :: dataframe where
  "scenario_web = \<lparr>columns = [''ID'', ''Amount''], rows = [scenario_web_row]\<rparr>"

definition scenario_config :: "(string \<times> (string \<times> int) list) list" where
  "scenario_config = [(''Gain Summary'', [(''header_row'', 2), (''data_start_row'', 3)])]"

text \<open>The entry that the comparison of the scenario's two frames produces.\<close>

definition scenario_entry :: sheet_entry where
  "scenario_entry =
     \<lparr>common_rows = [simple_headers [''ID'', ''Amount'']],
      different_rows = [simple_headers [''ID'', ''Amount'']],
      only_in_original_rows =
        [simple_headers [''ID'', ''Amount''],
         [JInt 100, JStr ''1,000'', JStr ''Only in Original'']],
      only_in_website_rows =
        [simple_headers [''ID'', ''Amount''],
         [JInt 100, JStr ''999'', JStr ''Only in Website'']],
      entry_rows_compared = 2, cells_different = 2, error = None\<rparr>"


text \<open>Two frames that share no column label.\<close>

definition disjoint_orig :: dataframe where
  "disjoint_orig = \<lparr>columns = [''ID''], rows = [mk_row [(''ID'', CInt 100)]]\<rparr>"

definition disjoint_web :: dataframe where
  "disjoint_web = \<lparr>columns = [''Amount''], rows = [mk_row [(''Amount'', CStr ''999'')]]\<rparr>"

text \<open>Two original rows with the same generic key and one website row with that key, on
  a sheet whose first two columns are not the account number.\<close>

definition reuse_cols :: "string list" where
  "reuse_cols = [''Name'', ''Type'', ''Account Number'']"

definition reuse_row1 :: row where
  "reuse_row1 = mk_row [(''Name'', CStr ''Fund''), (''Type'', CStr ''Equity''),
                        (''Account Number'', CInt 1)]"

definition reuse_row2 :: row where
  "reuse_row2 = mk_row [(''Name'', CStr ''Fund''), (''Type'', CStr ''Equity''),
                        (''Account Number'', CInt 5)]"

definition reuse_orig :: dataframe where
  "reuse_orig = \<lparr>columns = reuse_cols, rows = [reuse_row1, reuse_row2]\<rparr>"

definition reuse_web :: dataframe where
  "reuse_web = \<lparr>columns = reuse_cols, rows = [reuse_row1]\<rparr>"

text \<open>A sheet with the three preferred key columns: an original row whose investment
  name is blank, and no website row.\<close>

definition blank_cols :: "string list" where
  "blank_cols = [''Account Number'', ''Investment Name'', ''Purchase Date'', ''Amount'']"

definition blank_row :: row where
  "blank_row = mk_row [(''Account Number'', CInt 1), (''Investment Name'', CStr ''  ''),
                       (''Purchase Date'', CStr ''05/01/2020''), (''Amount'', CInt 10)]"

definition blank_orig :: dataframe where
  "blank_orig = \<lparr>columns = blank_cols, rows = [blank_row]\<rparr>"

definition blank_web :: dataframe where
  "blank_web = \<lparr>columns = blank_cols, rows = []\<rparr>"

definition blank_config :: "(string \<times> (string \<times> int) list) list" where
  "blank_config = [(''transaction_details'', [(''header_row'', 2), (''data_start_row'', 3)])]"





section \<open>Properties of the value normalizer and the comparator\<close>

lemma dropWhile_all: "\<forall>x\<in>set s. P x \<Longrightarrow> dropWhile P s = []"
  by (induction s) auto

lemma strip_blank: "list_all is_space s \<Longrightarrow> strip s = []"
  by (simp add: strip_def list_all_iff dropWhile_all)







lemmas cell_eval =
  coerce_numeric_def to_int_or_none_def strip_def is_space_def is_digit_def py_float_def
  digits_val_def digit_val_def py_int_def

text \<open>
  C7. \<open>coerce_numeric\<close> (the spec's normalizeNumeric) maps \<open>"(1,234)"\<close> to \<open>-1234.0\<close>, the
  empty string to \<open>None\<close> and \<open>"abc"\<close> to \<open>None\<close>; a missing value and every blank
  string (whitespace only) give \<open>None\<close>. The function is total: the \<open>ValueError\<close> of
  \<open>float\<close> is the result \<open>None\<close>, and no input raises.
\<close>

theorem coerce_numeric_examples:
  "coerce_numeric (CStr ''(1,234)'') = Some (- 1234) \<and>
   coerce_numeric (CStr []) = None \<and>
   coerce_numeric (CStr ''abc'') = None \<and>
   coerce_numeric CNone = None \<and>
   (\<forall>s. list_all is_space s \<longrightarrow> coerce_numeric (CStr s) = None)"
proof -
  have 1: "coerce_numeric (CStr ''(1,234)'') = Some (- 1234)"
    by (simp add: cell_eval)
  have 2: "coerce_numeric (CStr []) = None"
    by (simp add: coerce_numeric_def strip_def)
  have 3: "coerce_numeric (CStr ''abc'') = None"
    by (simp add: cell_eval)
  have 4: "coerce_numeric CNone = None"
    by (simp add: coerce_numeric_def)
  have 5: "\<forall>s. list_all is_space s \<longrightarrow> coerce_numeric (CStr s) = None"
    by (simp add: coerce_numeric_def strip_blank)
  from 1 2 3 4 5 show ?thesis by blast
qed

theorem coerce_numeric_examples_witness:
  "list_all is_space [CHR '' '', CHR 0x09] \<and> coerce_numeric (CStr [CHR '' '', CHR 0x09]) = None"
proof -
  have h: "list_all is_space [CHR '' '', CHR 0x09]" by (simp add: is_space_def)
  from coerce_numeric_examples have "list_all is_space [CHR '' '', CHR 0x09]
      \<longrightarrow> coerce_numeric (CStr [CHR '' '', CHR 0x09]) = None" by blast
  with h show ?thesis by blast
qed

text \<open>
  C10. \<open>values_equal\<close> and \<open>values_different\<close> are symmetric in their two values, for
  every tolerance.
\<close>

theorem values_equal_symmetric:
  "values_equal L tol a b = values_equal L tol b a \<and>
   values_different L tol a b = values_different L tol b a"
  by (auto simp: values_different_def values_equal_def abs_minus_commute split: option.splits)





section \<open>Properties of the orchestrator\<close>

lemma map_of_dict_set: "map_of (dict_set d k v) = (map_of d)(k \<mapsto> v)"
  by (induction d) (auto simp: fun_eq_iff)


lemma run_sheets_step:
  "run_sheets L original website ((n, cfg) # rest) res =
     run_sheets L original website rest
       \<lparr>summary_rows = summary_rows res @ [sheet_summary L original website n cfg],
        sheets = dict_set (sheets res) n (sheet_outcome L original website n cfg)\<rparr>"
  by (simp add: sheet_summary_def sheet_outcome_def split: sum.splits prod.splits)

lemma run_sheets_summary:
  "summary_rows (run_sheets L original website config res) =
     summary_rows res @ map (\<lambda>(n, cfg). sheet_summary L original website n cfg) config"
proof (induction config arbitrary: res)
  case Nil
  show ?case by simp
next
  case (Cons p config)
  obtain n cfg where p: "p = (n, cfg)" by (cases p)
  show ?case unfolding p run_sheets_step by (simp add: Cons.IH)
qed


lemma run_sheets_other:
  "n \<notin> fst ` set config \<Longrightarrow>
   map_of (sheets (run_sheets L original website config res)) n = map_of (sheets res) n"
proof (induction config arbitrary: res)
  case Nil
  show ?case by simp
next
  case (Cons p config)
  obtain m cfg where p: "p = (m, cfg)" by (cases p)
  have ne: "m \<noteq> n" and rest: "n \<notin> fst ` set config" using Cons.prems p by auto
  show ?case unfolding p run_sheets_step
    using ne by (simp add: Cons.IH [OF rest] map_of_dict_set)
qed

lemma run_sheets_lookup:
  "distinct (map fst config) \<Longrightarrow> (n, cfg) \<in> set config \<Longrightarrow>
   map_of (sheets (run_sheets L original website config res)) n =
     Some (sheet_outcome L original website n cfg)"
proof (induction config arbitrary: res)
  case Nil
  then show ?case by simp
next
  case (Cons p config)
  obtain m c where p: "p = (m, c)" by (cases p)
  have d: "distinct (map fst config)" and m: "m \<notin> fst ` set config"
    using Cons.prems(1) p by auto
  show ?case
  proof (cases "(n, cfg) \<in> set config")
    case True
    show ?thesis unfolding p run_sheets_step by (rule Cons.IH [OF d True])
  next
    case False
    then have eq: "m = n" "c = cfg" using Cons.prems(2) p by auto
    show ?thesis unfolding p run_sheets_step
      using m eq by (simp add: run_sheets_other map_of_dict_set)
  qed
qed

lemma compare_India_unfold:
  "compare_excel_with_gain_summary_inline_India L original website sheets_config =
     run_sheets L original website (config_of sheets_config)
       \<lparr>summary_rows = [summary_header], sheets = []\<rparr>"
  by (simp add: compare_excel_with_gain_summary_inline_India_def config_of_def)

lemma India_lookup:
  "distinct (map fst (config_of sheets_config)) \<Longrightarrow> (n, cfg) \<in> set (config_of sheets_config) \<Longrightarrow>
   map_of (sheets (compare_excel_with_gain_summary_inline_India L original website sheets_config)) n
     = Some (sheet_outcome L original website n cfg)"
  unfolding compare_India_unfold by (rule run_sheets_lookup)

lemma India_summary:
  "(n, cfg) \<in> set (config_of sheets_config) \<Longrightarrow>
   sheet_summary L original website n cfg
     \<in> set (summary_rows (compare_excel_with_gain_summary_inline_India L original website sheets_config))"
  unfolding compare_India_unfold run_sheets_summary by force

subsection \<open>The scenario, evaluated\<close>

lemma scenario_cells:
  "scenario_orig_row ''ID'' = CInt 100" "scenario_orig_row ''Amount'' = CStr ''1,000''"
  "scenario_web_row ''ID'' = CInt 100" "scenario_web_row ''Amount'' = CStr ''999''"
  by (simp_all add: scenario_orig_row_def scenario_web_row_def mk_row_def)

lemma scenario_keys:
  "row_key L [''ID'', ''Amount''] scenario_orig_row 2 = [KNum 100, KNum 1000]"
  "row_key L [''ID'', ''Amount''] scenario_web_row 2 = [KNum 100, KNum 999]"
  by (simp_all add: row_key_def scenario_cells cell_eval)

lemma scenario_general:
  "general_match L [''ID'', ''Amount''] scenario_orig scenario_web
     (make_simple_headers [''ID'', ''Amount'']) =
   \<lparr>structured_common = [simple_headers [''ID'', ''Amount'']],
    structured_diff = [simple_headers [''ID'', ''Amount'']],
    structured_only_orig =
      [simple_headers [''ID'', ''Amount''],
       [JInt 100, JStr ''1,000'', JStr ''Only in Original'']],
    structured_only_web =
      [simple_headers [''ID'', ''Amount''],
       [JInt 100, JStr ''999'', JStr ''Only in Website'']],
    rows_compared = 2, diff_count = 2\<rparr>"
  by (simp add: general_match_def scenario_orig_def scenario_web_def scenario_keys
      scenario_cells build_key_index_def enumerate_eq_zip match_idx_def gen_orig_step_def
      gen_web_step_def make_simple_headers_def simple_row_def norm_for_json_def)

lemma scenario_sheet:
  "process_sheet L (one_sheet ''Gain Summary'' scenario_orig)
     (one_sheet ''Gain Summary'' scenario_web) ''Gain Summary''
     [(''header_row'', 2), (''data_start_row'', 3)] =
   Inr (scenario_entry, [JStr ''Gain Summary'', JInt 2, JInt 2, JInt 1, JInt 2, JInt 2])"
proof -
  have cols: "columns scenario_orig = [''ID'', ''Amount'']"
    "columns scenario_web = [''ID'', ''Amount'']"
    by (simp_all add: scenario_orig_def scenario_web_def)
  have sel: "select_cols scenario_orig [''ID'', ''Amount''] = scenario_orig"
    "select_cols scenario_web [''ID'', ''Amount''] = scenario_web"
    by (simp_all add: select_cols_def scenario_orig_def scenario_web_def)
  have cf: "compare_frames L ''Gain Summary'' [''ID'', ''Amount''] scenario_orig scenario_web =
      general_match L [''ID'', ''Amount''] scenario_orig scenario_web
        (make_simple_headers [''ID'', ''Amount''])"
    by (simp add: compare_frames_def sel cols)
  show ?thesis
    by (simp add: process_sheet_def one_sheet_def cols cf scenario_general entry_of_def
        summary_row_def scenario_entry_def Let_def)
qed


text \<open>
  C2, as the spec states it, fails. For the original row \<open>{ID: 100, Amount: "1,000"}\<close>
  and the website row \<open>{ID: 100, Amount: "999"}\<close> the comparison puts no row into the
  different rows (only the header line is there) and counts two different cells, not
  one.
\<close>

theorem scenario_not_different_counterexample:
  "sheets (compare_excel_with_gain_summary_inline_India plain_lib
      (one_sheet ''Gain Summary'' scenario_orig) (one_sheet ''Gain Summary'' scenario_web)
      (Some scenario_config)) = [(''Gain Summary'', scenario_entry)] \<and>
   different_rows scenario_entry = [simple_headers [''ID'', ''Amount'']] \<and>
   cells_different scenario_entry \<noteq> 1"
  by (simp add: compare_excel_with_gain_summary_inline_India_def scenario_config_def
      scenario_sheet scenario_entry_def)

text \<open>
  C2, amended. For the original row \<open>{ID: 100, Amount: "1,000"}\<close> and the website row
  \<open>{ID: 100, Amount: "999"}\<close> the two rows are not paired: the generic row key is made
  of the first two informative cells, \<open>(100, 1000)\<close> for the original row and
  \<open>(100, 999)\<close> for the website row. The original row is emitted as only in original,
  the website row as only in website, no row is common or different, and the sheet counts
  two rows compared and two cells different. (The two amounts themselves are equal
  within the tolerance 1.)
\<close>

theorem scenario_rows_unpaired:
  "row_key plain_lib [''ID'', ''Amount''] scenario_orig_row 2 = [KNum 100, KNum 1000] \<and>
   row_key plain_lib [''ID'', ''Amount''] scenario_web_row 2 = [KNum 100, KNum 999] \<and>
   values_equal plain_lib NUMERIC_TOLERANCE (CStr ''1,000'') (CStr ''999'') \<and>
   compare_excel_with_gain_summary_inline_India plain_lib
      (one_sheet ''Gain Summary'' scenario_orig) (one_sheet ''Gain Summary'' scenario_web)
      (Some scenario_config) =
     \<lparr>summary_rows =
        [summary_header, [JStr ''Gain Summary'', JInt 2, JInt 2, JInt 1, JInt 2, JInt 2]],
      sheets =
        [(''Gain Summary'',
          \<lparr>common_rows = [simple_headers [''ID'', ''Amount'']],
           different_rows = [simple_headers [''ID'', ''Amount'']],
           only_in_original_rows =
             [simple_headers [''ID'', ''Amount''],
              [JInt 100, JStr ''1,000'', JStr ''Only in Original'']],
           only_in_website_rows =
             [simple_headers [''ID'', ''Amount''],
              [JInt 100, JStr ''999'', JStr ''Only in Website'']],
           entry_rows_compared = 2, cells_different = 2, error = None\<rparr>)]\<rparr>"
proof -
  have v: "values_equal plain_lib NUMERIC_TOLERANCE (CStr ''1,000'') (CStr ''999'')"
    by (simp add: values_equal_def NUMERIC_TOLERANCE_def cell_eval Let_def)
  show ?thesis
    by (simp add: compare_excel_with_gain_summary_inline_India_def scenario_config_def
        scenario_sheet scenario_entry_def scenario_keys v)
qed



text \<open>
  C8. When both workbooks have the sheet and the two frames share no column label, the
  sheet's processing returns the entry with the four row lists empty, both counts zero
  and no \<open>error\<close>, and a summary row of zeros; with distinct sheet names in the
  configuration that entry and that row are what the comparison records for the sheet.
\<close>

theorem empty_common_columns:
  "map_of cfg ''header_row'' = Some h \<and> original n (h - 1) = Inr df_orig \<and>
   website n (h - 1) = Inr df_web \<and> set (columns df_orig) \<inter> set (columns df_web) = {}
   \<longrightarrow>
   process_sheet L original website n cfg =
     Inr (\<lparr>common_rows = [], different_rows = [], only_in_original_rows = [],
           only_in_website_rows = [], entry_rows_compared = 0, cells_different = 0,
           error = None\<rparr>,
          [JStr n, JInt 0, JInt 0, JInt 0, JInt 0, JInt 0]) \<and>
   (distinct (map fst (config_of sheets_config)) \<and> (n, cfg) \<in> set (config_of sheets_config)
    \<longrightarrow>
    map_of (sheets (compare_excel_with_gain_summary_inline_India L original website
       sheets_config)) n =
      Some \<lparr>common_rows = [], different_rows = [], only_in_original_rows = [],
            only_in_website_rows = [], entry_rows_compared = 0, cells_different = 0,
            error = None\<rparr> \<and>
    [JStr n, JInt 0, JInt 0, JInt 0, JInt 0, JInt 0]
      \<in> set (summary_rows (compare_excel_with_gain_summary_inline_India L original website
           sheets_config)))"
proof (intro impI)
  assume h: "map_of cfg ''header_row'' = Some h \<and> original n (h - 1) = Inr df_orig \<and>
   website n (h - 1) = Inr df_web \<and> set (columns df_orig) \<inter> set (columns df_web) = {}"
  then have "filter (\<lambda>c. c \<in> set (columns df_web)) (columns df_orig) = []"
    by (auto simp: filter_empty_conv)
  then have ps: "process_sheet L original website n cfg =
     Inr (\<lparr>common_rows = [], different_rows = [], only_in_original_rows = [],
           only_in_website_rows = [], entry_rows_compared = 0, cells_different = 0,
           error = None\<rparr>,
          [JStr n, JInt 0, JInt 0, JInt 0, JInt 0, JInt 0])"
    using h by (simp add: process_sheet_def entry_of_def empty_buckets_def)
  have "map_of (sheets (compare_excel_with_gain_summary_inline_India L original website
       sheets_config)) n =
      Some \<lparr>common_rows = [], different_rows = [], only_in_original_rows = [],
            only_in_website_rows = [], entry_rows_compared = 0, cells_different = 0,
            error = None\<rparr> \<and>
    [JStr n, JInt 0, JInt 0, JInt 0, JInt 0, JInt 0]
      \<in> set (summary_rows (compare_excel_with_gain_summary_inline_India L original website
           sheets_config))"
    if a: "distinct (map fst (config_of sheets_config)) \<and> (n, cfg) \<in> set (config_of sheets_config)"
    using India_lookup [of sheets_config n cfg L original website]
      India_summary [of n cfg sheets_config L original website] a ps
    by (simp add: sheet_outcome_def sheet_summary_def)
  with ps show "process_sheet L original website n cfg =
     Inr (\<lparr>common_rows = [], different_rows = [], only_in_original_rows = [],
           only_in_website_rows = [], entry_rows_compared = 0, cells_different = 0,
           error = None\<rparr>,
          [JStr n, JInt 0, JInt 0, JInt 0, JInt 0, JInt 0]) \<and>
   (distinct (map fst (config_of sheets_config)) \<and> (n, cfg) \<in> set (config_of sheets_config)
    \<longrightarrow>
    map_of (sheets (compare_excel_with_gain_summary_inline_India L original website
       sheets_config)) n =
      Some \<lparr>common_rows = [], different_rows = [], only_in_original_rows = [],
            only_in_website_rows = [], entry_rows_compared = 0, cells_different = 0,
            error = None\<rparr> \<and>
    [JStr n, JInt 0, JInt 0, JInt 0, JInt 0, JInt 0]
      \<in> set (summary_rows (compare_excel_with_gain_summary_inline_India L original website
           sheets_config)))"
    by blast
qed

theorem empty_common_columns_witness:
  "map_of [(''header_row'', 2), (''data_start_row'', 3)] ''header_row'' = Some (2 :: int) \<and>
   one_sheet ''Gain Summary'' disjoint_orig ''Gain Summary'' (2 - 1) = Inr disjoint_orig \<and>
   one_sheet ''Gain Summary'' disjoint_web ''Gain Summary'' (2 - 1) = Inr disjoint_web \<and>
   set (columns disjoint_orig) \<inter> set (columns disjoint_web) = {} \<and>
   distinct (map fst (config_of (Some scenario_config))) \<and>
   (''Gain Summary'', [(''header_row'', 2), (''data_start_row'', 3)])
     \<in> set (config_of (Some scenario_config)) \<and>
   map_of (sheets (compare_excel_with_gain_summary_inline_India plain_lib
      (one_sheet ''Gain Summary'' disjoint_orig) (one_sheet ''Gain Summary'' disjoint_web)
      (Some scenario_config))) ''Gain Summary'' =
     Some \<lparr>common_rows = [], different_rows = [], only_in_original_rows = [],
           only_in_website_rows = [], entry_rows_compared = 0, cells_different = 0,
           error = None\<rparr>"
proof -
  let ?cfg = "[(''header_row'', 2), (''data_start_row'', 3)] :: (string \<times> int) list"
  have a: "map_of ?cfg ''header_row'' = Some 2" by simp
  have b: "one_sheet ''Gain Summary'' disjoint_orig ''Gain Summary'' (2 - 1) = Inr disjoint_orig"
    "one_sheet ''Gain Summary'' disjoint_web ''Gain Summary'' (2 - 1) = Inr disjoint_web"
    by (simp_all add: one_sheet_def)
  have c: "set (columns disjoint_orig) \<inter> set (columns disjoint_web) = {}"
    by (simp add: disjoint_orig_def disjoint_web_def)
  have d: "distinct (map fst (config_of (Some scenario_config)))"
    "(''Gain Summary'', ?cfg) \<in> set (config_of (Some scenario_config))"
    by (simp_all add: config_of_def scenario_config_def)
  from empty_common_columns [of ?cfg 2 "one_sheet ''Gain Summary'' disjoint_orig"
      "''Gain Summary''" disjoint_orig "one_sheet ''Gain Summary'' disjoint_web" disjoint_web
      plain_lib "Some scenario_config"] a b c d
  have "map_of (sheets (compare_excel_with_gain_summary_inline_India plain_lib
      (one_sheet ''Gain Summary'' disjoint_orig) (one_sheet ''Gain Summary'' disjoint_web)
      (Some scenario_config))) ''Gain Summary'' =
     Some \<lparr>common_rows = [], different_rows = [], only_in_original_rows = [],
           only_in_website_rows = [], entry_rows_compared = 0, cells_different = 0,
           error = None\<rparr>"
    by blast
  with a b c d show ?thesis by blast
qed

text \<open>
  C9 holds for \<open>compare_excel_with_gain_summary_inline_India\<close> (the entry of every
  configured sheet has the four row lists and the two counts, and its summary row the
  counts per list), and fails for \<open>compare_excel_with_gain_summary_inline\<close> of
  \<open>utils.py\<close>: with the default configuration and two workbooks that both have the
  sheet \<open>Gain Summary\<close>, the India entry point returns that sheet's entry and the
  \<open>utils.py\<close> entry point returns no entry at all and only the header line of the
  summary.
\<close>

theorem utils_entry_point_returns_no_sheet:
  "sheets (compare_excel_with_gain_summary_inline plain_lib
      (one_sheet ''Gain Summary'' scenario_orig) (one_sheet ''Gain Summary'' scenario_web)
      None) = [] \<and>
   summary_rows (compare_excel_with_gain_summary_inline plain_lib
      (one_sheet ''Gain Summary'' scenario_orig) (one_sheet ''Gain Summary'' scenario_web)
      None) = [summary_header] \<and>
   map_of (sheets (compare_excel_with_gain_summary_inline plain_lib
      (one_sheet ''Gain Summary'' scenario_orig) (one_sheet ''Gain Summary'' scenario_web)
      None)) ''Gain Summary'' = None \<and>
   map_of (sheets (compare_excel_with_gain_summary_inline_India plain_lib
      (one_sheet ''Gain Summary'' scenario_orig) (one_sheet ''Gain Summary'' scenario_web)
      None)) ''Gain Summary'' = Some scenario_entry"
proof -
  have d: "distinct (map fst (config_of None))"
    "(''Gain Summary'', [(''header_row'', 2), (''data_start_row'', 3)]) \<in> set (config_of None)"
    by (simp_all add: config_of_def default_config_India_def)
  have "map_of (sheets (compare_excel_with_gain_summary_inline_India plain_lib
      (one_sheet ''Gain Summary'' scenario_orig) (one_sheet ''Gain Summary'' scenario_web)
      None)) ''Gain Summary'' = Some scenario_entry"
    using India_lookup [OF d, of plain_lib "one_sheet ''Gain Summary'' scenario_orig"
        "one_sheet ''Gain Summary'' scenario_web"]
    by (simp add: sheet_outcome_def scenario_sheet)
  then show ?thesis
    by (simp add: compare_excel_with_gain_summary_inline_def)
qed

section \<open>Properties of the indexed matcher\<close>

lemma setdefault_append_lookup:
  "map_of (setdefault_append d k i) k' =
     (if k' = k then Some ((case map_of d k of None \<Rightarrow> [] | Some l \<Rightarrow> l) @ [i])
      else map_of d k')"
  by (induction d) auto

lemma build_key_index_loop_lookup:
  "(case map_of (build_key_index_loop L index m prs idx) k of None \<Rightarrow> [] | Some l \<Rightarrow> l) =
     (case map_of idx k of None \<Rightarrow> [] | Some l \<Rightarrow> l) @
     map fst (filter (\<lambda>p. row_key L index (snd p) m = k) prs)"
proof (induction prs arbitrary: idx)
  case Nil
  show ?case by simp
next
  case (Cons p prs)
  obtain i r where p: "p = (i, r)" by (cases p)
  show ?case unfolding p
    by (simp add: Cons.IH setdefault_append_lookup)
qed

lemma filter_enumerate_first:
  "(case map fst (filter (\<lambda>p. P (snd p)) (enumerate n xs)) of
      [] \<Rightarrow> None
    | i # _ \<Rightarrow> Some (i, (pre @ xs) ! i)) =
   (case find P xs of
      None \<Rightarrow> None
    | Some x \<Rightarrow> Some (n + length (takeWhile (\<lambda>x. \<not> P x) xs), x))"
  if "length pre = n"
  using that
proof (induction xs arbitrary: n pre)
  case Nil
  show ?case by simp
next
  case (Cons x xs)
  show ?case
  proof (cases "P x")
    case True
    then show ?thesis using Cons.prems by (simp add: nth_append)
  next
    case False
    have "length (pre @ [x]) = Suc n" using Cons.prems by simp
    from Cons.IH [OF this] False show ?thesis
      by (auto split: option.splits list.splits)
  qed
qed

lemma match_idx_first:
  "match_idx (build_key_index L df 2) k =
     (case find (\<lambda>w. row_key L (columns df) w 2 = k) (rows df) of
        None \<Rightarrow> None
      | Some w \<Rightarrow> Some (length (takeWhile (\<lambda>w. row_key L (columns df) w 2 \<noteq> k) (rows df))))"
  and match_row_first:
  "(case match_idx (build_key_index L df 2) k of
      None \<Rightarrow> None
    | Some i \<Rightarrow> Some (rows df ! i)) =
     find (\<lambda>w. row_key L (columns df) w 2 = k) (rows df)"
proof -
  let ?P = "\<lambda>w. row_key L (columns df) w 2 = k"
  have l: "(case map_of (build_key_index L df 2) k of None \<Rightarrow> [] | Some l \<Rightarrow> l) =
      map fst (filter (\<lambda>p. ?P (snd p)) (enumerate 0 (rows df)))"
    by (simp add: build_key_index_def build_key_index_loop_lookup)
  have f: "(case map fst (filter (\<lambda>p. ?P (snd p)) (enumerate 0 (rows df))) of
      [] \<Rightarrow> None
    | i # _ \<Rightarrow> Some (i, rows df ! i)) =
   (case find ?P (rows df) of
      None \<Rightarrow> None
    | Some x \<Rightarrow> Some (length (takeWhile (\<lambda>x. \<not> ?P x) (rows df)), x))"
    using filter_enumerate_first [where pre = "[]" and n = 0 and P = ?P and xs = "rows df"]
    by (auto split: option.splits list.splits)
  show "match_idx (build_key_index L df 2) k =
     (case find ?P (rows df) of
        None \<Rightarrow> None
      | Some w \<Rightarrow> Some (length (takeWhile (\<lambda>w. row_key L (columns df) w 2 \<noteq> k) (rows df))))"
    using f unfolding match_idx_def l by (auto split: list.splits option.splits)
  show "(case match_idx (build_key_index L df 2) k of
      None \<Rightarrow> None
    | Some i \<Rightarrow> Some (rows df ! i)) = find ?P (rows df)"
    using f unfolding match_idx_def l by (auto split: list.splits option.splits)
qed

lemma only_web_add_matched:
  "structured_only_web (add_matched L cc st r w) = structured_only_web st"
  by (simp add: add_matched_def split: prod.splits)

lemma only_web_gs_orig_step:
  "structured_only_web (gs_orig_step L cc dfo dfw idx st r) = structured_only_web st"
  by (simp add: gs_orig_step_def add_only_orig_def only_web_add_matched split: option.splits)

lemma only_web_gen_orig_step:
  "structured_only_web (gen_orig_step L cc dfo dfw idx st r) = structured_only_web st"
  by (simp add: gen_orig_step_def Let_def split: option.splits prod.splits)

lemma only_web_foldl:
  "(\<And>st r. structured_only_web (step st r) = structured_only_web st) \<Longrightarrow>
   structured_only_web (foldl step st rs) = structured_only_web st"
  by (induction rs arbitrary: st) simp_all

lemma only_web_gs_web_loop:
  "structured_only_web (foldl (gs_web_step L cc dfw ks) st ws) =
     structured_only_web st @
     map (only_web_triple cc) (filter (\<lambda>w. row_key L (columns dfw) w 2 \<notin> set ks) ws)"
  by (induction ws arbitrary: st) (simp_all add: gs_web_step_def add_only_web_def)

lemma only_web_gen_web_loop:
  "structured_only_web (foldl (gen_web_step L cc dfw ks) st ws) =
     structured_only_web st @
     map (\<lambda>w. simple_row cc w ''Only in Website'')
       (filter (\<lambda>w. row_key L (columns dfw) w 2 \<notin> set ks) ws)"
  by (induction ws arbitrary: st) (simp_all add: gen_web_step_def)

lemma gs_orig_step_first:
  "gs_orig_step L cc dfo dfw (build_key_index L dfw 2) st r =
     (case find (\<lambda>w. row_key L (columns dfw) w 2 = row_key L (columns dfo) r 2) (rows dfw) of
        None \<Rightarrow> add_only_orig cc st r
      | Some w \<Rightarrow> add_matched L cc st r w)"
  by (simp add: gs_orig_step_def match_row_first [symmetric] split: option.splits)

subsection \<open>The reuse example, evaluated\<close>

lemma reuse_cells:
  "reuse_row1 ''Name'' = CStr ''Fund''" "reuse_row1 ''Type'' = CStr ''Equity''"
  "reuse_row1 ''Account Number'' = CInt 1"
  "reuse_row2 ''Name'' = CStr ''Fund''" "reuse_row2 ''Type'' = CStr ''Equity''"
  "reuse_row2 ''Account Number'' = CInt 5"
  by (simp_all add: reuse_row1_def reuse_row2_def mk_row_def)

lemma text_cells:
  "to_int_or_none (CStr ''Fund'') = None" "to_int_or_none (CStr ''Equity'') = None"
  "lower (norm_text L (CStr ''Fund'')) = ''fund''"
  "lower (norm_text L (CStr ''Equity'')) = ''equity''"
  "norm_text L (CStr ''Fund'') \<noteq> []" "norm_text L (CStr ''Equity'') \<noteq> []"
  by (simp_all add: cell_eval Let_def norm_text_def py_str_def lower_def lower_char_def)

lemma reuse_keys:
  "row_key L reuse_cols reuse_row1 2 = [KStr ''fund'', KStr ''equity'']"
  "row_key L reuse_cols reuse_row2 2 = [KStr ''fund'', KStr ''equity'']"
  by (simp_all add: row_key_def reuse_cols_def reuse_cells text_cells)

lemma reuse_index:
  "build_key_index L reuse_web 2 = [([KStr ''fund'', KStr ''equity''], [0])]"
  by (simp add: build_key_index_def reuse_web_def reuse_keys enumerate_eq_zip)

lemma reuse_text_values:
  "values_equal L NUMERIC_TOLERANCE (CStr ''Fund'') (CStr ''Fund'')"
  "values_equal L NUMERIC_TOLERANCE (CStr ''Equity'') (CStr ''Equity'')"
  by (simp_all add: values_equal_def text_cells)

lemma reuse_number_values:
  "values_equal L NUMERIC_TOLERANCE (CInt 1) (CInt 1)"
  "\<not> values_equal L NUMERIC_TOLERANCE (CInt 5) (CInt 1)"
  by (simp_all add: values_equal_def to_int_or_none_def coerce_numeric_def
      py_int_def NUMERIC_TOLERANCE_def)

lemmas reuse_values = reuse_text_values reuse_number_values

lemma reuse_gain_summary:
  "gain_summary_match L reuse_cols reuse_orig reuse_web (make_tripled_headers reuse_cols) =
     \<lparr>structured_common =
        [tripled_headers reuse_cols,
         [JStr ''Fund'', JStr ''Fund'', JStr [], JStr ''Equity'', JStr ''Equity'', JStr [],
          JInt 1, JInt 1, JStr []]],
      structured_diff =
        [tripled_headers reuse_cols,
         [JStr ''Fund'', JStr ''Fund'', JStr [], JStr ''Equity'', JStr ''Equity'', JStr [],
          JInt 5, JInt 1, JFloat (- 4)]],
      structured_only_orig = [tripled_headers reuse_cols],
      structured_only_web = [tripled_headers reuse_cols],
      rows_compared = 1, diff_count = 1\<rparr>"
proof -
  have c: "columns reuse_orig = reuse_cols" "columns reuse_web = reuse_cols"
    "rows reuse_orig = [reuse_row1, reuse_row2]" "rows reuse_web = [reuse_row1]"
    by (simp_all add: reuse_orig_def reuse_web_def)
  have m: "match_idx [([KStr ''fund'', KStr ''equity''], [0])] [KStr ''fund'', KStr ''equity'']
      = Some 0"
    by (simp add: match_idx_def)
  have s1: "all_same L reuse_cols reuse_row1 reuse_row1"
    by (simp add: all_same_def reuse_cols_def reuse_cells reuse_values)
  have s2: "\<not> all_same L reuse_cols reuse_row2 reuse_row1"
    by (simp add: all_same_def reuse_cols_def reuse_cells reuse_values)
  have d: "diff_loop L reuse_row2 reuse_row1 reuse_cols ([], 0) =
      ([JStr ''Fund'', JStr ''Fund'', JStr [], JStr ''Equity'', JStr ''Equity'', JStr [],
        JInt 5, JInt 1, JFloat (- 4)], 1)"
    by (simp add: reuse_cols_def reuse_cells reuse_values values_different_def
        norm_for_json_def coerce_numeric_def)
  have t: "common_triple reuse_cols reuse_row1 =
      [JStr ''Fund'', JStr ''Fund'', JStr [], JStr ''Equity'', JStr ''Equity'', JStr [],
       JInt 1, JInt 1, JStr []]"
    by (simp add: common_triple_def reuse_cols_def reuse_cells norm_for_json_def)
  show ?thesis
    by (simp add: gain_summary_match_def c reuse_index reuse_keys m gs_orig_step_def
        gs_web_step_def add_matched_def s1 s2 d t make_tripled_headers_def)
qed

lemma reuse_frames:
  "compare_frames L ''Gain Summary'' reuse_cols reuse_orig reuse_web =
     gain_summary_match L reuse_cols reuse_orig reuse_web (make_tripled_headers reuse_cols)"
proof -
  have sel: "select_cols reuse_orig reuse_cols = reuse_orig"
    "select_cols reuse_web reuse_cols = reuse_web"
    by (simp_all add: select_cols_def reuse_orig_def reuse_web_def)
  have k: "choose_key_cols reuse_orig reuse_web = [''Account Number'']"
    by (simp add: choose_key_cols_def preferred_keys_def reuse_orig_def reuse_web_def
        reuse_cols_def)
  have dd: "drop_duplicates [''Account Number''] reuse_orig = reuse_orig"
    "drop_duplicates [''Account Number''] reuse_web = reuse_web"
    by (simp_all add: drop_duplicates_def reuse_orig_def reuse_web_def reuse_cells)
  have a: "''Account Number'' \<in> set (columns reuse_orig)"
    "''Account Number'' \<in> set (columns reuse_web)"
    by (simp_all add: reuse_orig_def reuse_web_def reuse_cols_def)
  show ?thesis
    by (simp add: compare_frames_def sel k dd a tripled_sheets_def)
qed

text \<open>
  C4, as the spec states it, fails: a website row that an earlier original row was
  paired with is paired again. On the sheet \<open>Gain Summary\<close> with the columns \<open>Name\<close>,
  \<open>Type\<close>, \<open>Account Number\<close>, two original rows with the accounts 1 and 5 have the
  same generic key as the one website row with the account 1. Both are given the
  candidate index 0: the first is common with the website row, the second is different
  from the same website row, and no original row is only in original.
\<close>

theorem candidate_reused_counterexample:
  "match_idx (build_key_index plain_lib reuse_web 2)
     (row_key plain_lib (columns reuse_orig) reuse_row1 2) = Some 0 \<and>
   match_idx (build_key_index plain_lib reuse_web 2)
     (row_key plain_lib (columns reuse_orig) reuse_row2 2) = Some 0 \<and>
   structured_common (compare_frames plain_lib ''Gain Summary'' reuse_cols reuse_orig reuse_web) =
     [tripled_headers reuse_cols,
      [JStr ''Fund'', JStr ''Fund'', JStr [], JStr ''Equity'', JStr ''Equity'', JStr [],
       JInt 1, JInt 1, JStr []]] \<and>
   structured_diff (compare_frames plain_lib ''Gain Summary'' reuse_cols reuse_orig reuse_web) =
     [tripled_headers reuse_cols,
      [JStr ''Fund'', JStr ''Fund'', JStr [], JStr ''Equity'', JStr ''Equity'', JStr [],
       JInt 5, JInt 1, JFloat (- 4)]] \<and>
   structured_only_orig (compare_frames plain_lib ''Gain Summary'' reuse_cols reuse_orig reuse_web) =
     [tripled_headers reuse_cols]"
proof -
  have c: "columns reuse_orig = reuse_cols" by (simp add: reuse_orig_def)
  have m: "match_idx (build_key_index plain_lib reuse_web 2) [KStr ''fund'', KStr ''equity'']
      = Some 0"
    by (simp add: reuse_index match_idx_def)
  show ?thesis
    by (simp add: c reuse_keys m reuse_frames reuse_gain_summary)
qed

text \<open>
  C4, amended. In the indexed matching by the generic key, an original row is looked up
  by its key in the index built from the website frame and is paired with the first
  candidate index, which is the first website row with that key, whatever was paired
  before it (a website row is paired again with every original row of its key); an
  original row whose key no website row has is emitted as only in original. Every
  website row whose key is the key of no original row is emitted as only in website, in
  the Gain Summary comparison and in the general comparison.
\<close>

theorem first_candidate_matching:
  "(case match_idx (build_key_index L df_web 2) k of
      None \<Rightarrow> None
    | Some i \<Rightarrow> Some (rows df_web ! i)) =
     find (\<lambda>w. row_key L (columns df_web) w 2 = k) (rows df_web) \<and>
   gs_orig_step L common_cols df_orig df_web (build_key_index L df_web 2) st orig_row =
     (case find (\<lambda>w. row_key L (columns df_web) w 2 = row_key L (columns df_orig) orig_row 2)
             (rows df_web) of
        None \<Rightarrow> add_only_orig common_cols st orig_row
      | Some w \<Rightarrow> add_matched L common_cols st orig_row w) \<and>
   structured_only_web (gain_summary_match L common_cols df_orig df_web st) =
     structured_only_web st @
     map (only_web_triple common_cols)
       (filter (\<lambda>w. row_key L (columns df_web) w 2
                  \<notin> (\<lambda>r. row_key L (columns df_orig) r 2) ` set (rows df_orig))
          (rows df_web)) \<and>
   structured_only_web (general_match L common_cols df_orig df_web st) =
     structured_only_web st @
     map (\<lambda>w. simple_row common_cols w ''Only in Website'')
       (filter (\<lambda>w. row_key L (columns df_web) w 2
                  \<notin> (\<lambda>r. row_key L (columns df_orig) r 2) ` set (rows df_orig))
          (rows df_web))"
proof (intro conjI)
  show "(case match_idx (build_key_index L df_web 2) k of
      None \<Rightarrow> None
    | Some i \<Rightarrow> Some (rows df_web ! i)) =
     find (\<lambda>w. row_key L (columns df_web) w 2 = k) (rows df_web)"
    by (rule match_row_first)
  show "gs_orig_step L common_cols df_orig df_web (build_key_index L df_web 2) st orig_row =
     (case find (\<lambda>w. row_key L (columns df_web) w 2 = row_key L (columns df_orig) orig_row 2)
             (rows df_web) of
        None \<Rightarrow> add_only_orig common_cols st orig_row
      | Some w \<Rightarrow> add_matched L common_cols st orig_row w)"
    by (rule gs_orig_step_first)
  show "structured_only_web (gain_summary_match L common_cols df_orig df_web st) =
     structured_only_web st @
     map (only_web_triple common_cols)
       (filter (\<lambda>w. row_key L (columns df_web) w 2
                  \<notin> (\<lambda>r. row_key L (columns df_orig) r 2) ` set (rows df_orig))
          (rows df_web))"
    by (simp add: gain_summary_match_def Let_def only_web_gs_web_loop only_web_foldl
        only_web_gs_orig_step)
  show "structured_only_web (general_match L common_cols df_orig df_web st) =
     structured_only_web st @
     map (\<lambda>w. simple_row common_cols w ''Only in Website'')
       (filter (\<lambda>w. row_key L (columns df_web) w 2
                  \<notin> (\<lambda>r. row_key L (columns df_orig) r 2) ` set (rows df_orig))
          (rows df_web))"
    by (simp add: general_match_def Let_def only_web_gen_web_loop only_web_foldl
        only_web_gen_orig_step)
qed

section \<open>Properties of the matching by account or composite key\<close>

lemma keyed_Nil [simp]: "keyed key [] = []"
  by (simp add: keyed_def)

lemma keyed_append: "keyed key (xs @ ys) = keyed key xs @ keyed key ys"
  by (simp add: keyed_def)

lemma keyed_Cons:
  "keyed key (r # rs) = (case key r of None \<Rightarrow> [] | Some k \<Rightarrow> [(k, r)]) @ keyed key rs"
  by (simp add: keyed_def)



text \<open>\<open>orig_map\<close>, every index read back, is the first row of every key.\<close>

lemma build_map_resolve:
  "length pre = n \<Longrightarrow>
   resolve (pre @ rs) (build_map key (enumerate n rs) m) =
     resolve (pre @ rs) m @ firsts (fst ` set m) (keyed key rs)"
proof (induction rs arbitrary: n pre m)
  case Nil
  show ?case by (simp add: keyed_def)
next
  case (Cons r rs)
  have len: "length (pre @ [r]) = Suc n" using Cons.prems by simp
  show ?case
  proof (cases "key r")
    case None
    show ?thesis
      using Cons.IH [OF len, of m] None by (simp add: keyed_Cons)
  next
    case (Some k)
    show ?thesis
    proof (cases "map_of m k")
      case None
      then have notin: "k \<notin> fst ` set m" by (simp add: map_of_eq_None_iff)
      have nth: "(pre @ r # rs) ! n = r" using Cons.prems by (simp add: nth_append)
      have "resolve (pre @ r # rs) (build_map key (enumerate n (r # rs)) m) =
          resolve ((pre @ [r]) @ rs) (build_map key (enumerate (Suc n) rs) (m @ [(k, n)]))"
        using Some None by simp
      also have "\<dots> = resolve ((pre @ [r]) @ rs) (m @ [(k, n)]) @
          firsts (fst ` set (m @ [(k, n)])) (keyed key rs)"
        by (rule Cons.IH [OF len])
      also have "\<dots> = resolve (pre @ r # rs) m @ (k, r) # firsts (insert k (fst ` set m)) (keyed key rs)"
        using nth by (simp add: resolve_def)
      also have "\<dots> = resolve (pre @ r # rs) m @ firsts (fst ` set m) (keyed key (r # rs))"
        using Some notin by (simp add: keyed_Cons)
      finally show ?thesis .
    next
      case (Some i)
      then have isin: "k \<in> fst ` set m" by (metis map_of_eq_None_iff option.distinct(1))
      have "resolve (pre @ r # rs) (build_map key (enumerate n (r # rs)) m) =
          resolve ((pre @ [r]) @ rs) (build_map key (enumerate (Suc n) rs) m)"
        using \<open>key r = Some k\<close> Some by simp
      also have "\<dots> = resolve ((pre @ [r]) @ rs) m @ firsts (fst ` set m) (keyed key rs)"
        by (rule Cons.IH [OF len])
      also have "\<dots> = resolve (pre @ r # rs) m @ firsts (fst ` set m) (keyed key (r # rs))"
        using \<open>key r = Some k\<close> isin by (simp add: keyed_Cons)
      finally show ?thesis .
    qed
  qed
qed

lemma build_map_firsts:
  "resolve rs (build_map key (enumerate 0 rs) []) = firsts {} (keyed key rs)"
  using build_map_resolve [where pre = "[]" and n = 0 and rs = rs and key = key and m = "[]"]
  by (simp add: resolve_def)

lemma map_of_resolve: "map_of (resolve rs m) k = map_option (\<lambda>i. rs ! i) (map_of m k)"
  by (induction m) (auto simp: resolve_def)

lemma orig_loop_resolve:
  "foldl (map_orig_step L cc dfo dfw web_map) st orig_map =
   foldl (rows_orig_step L cc (resolve (rows dfw) web_map)) st (resolve (rows dfo) orig_map)"
proof (induction orig_map arbitrary: st)
  case Nil
  show ?case by (simp add: resolve_def)
next
  case (Cons p orig_map)
  have step: "map_orig_step L cc dfo dfw web_map st p =
      rows_orig_step L cc (resolve (rows dfw) web_map) st (fst p, rows dfo ! snd p)"
    by (cases p) (simp add: map_orig_step_def rows_orig_step_def map_of_resolve
        split: option.splits)
  have "resolve (rows dfo) (p # orig_map) = (fst p, rows dfo ! snd p) # resolve (rows dfo) orig_map"
    by (simp add: resolve_def)
  then show ?case by (simp add: step Cons.IH)
qed

lemma web_loop_resolve:
  "foldl (map_web_step cc dfw orig_map) st web_map =
   foldl (rows_web_step cc (resolve (rows dfo) orig_map)) st (resolve (rows dfw) web_map)"
proof (induction web_map arbitrary: st)
  case Nil
  show ?case by (simp add: resolve_def)
next
  case (Cons p web_map)
  have step: "map_web_step cc dfw orig_map st p =
      rows_web_step cc (resolve (rows dfo) orig_map) st (fst p, rows dfw ! snd p)"
    by (cases p) (simp add: map_web_step_def rows_web_step_def map_of_resolve)
  have "resolve (rows dfw) (p # web_map) = (fst p, rows dfw ! snd p) # resolve (rows dfw) web_map"
    by (simp add: resolve_def)
  then show ?case by (simp add: step Cons.IH)
qed

lemma map_match_rows:
  "map_match L cc kc dfo dfw st =
     rows_match L cc (firsts {} (keyed (frame_key L kc dfo) (rows dfo)))
       (firsts {} (keyed (frame_key L kc dfw) (rows dfw))) st"
  unfolding map_match_def Let_def rows_match_def
  by (simp add: orig_loop_resolve web_loop_resolve [where dfo = dfo] build_map_firsts)

subsection \<open>Rows dropped by \<open>drop_duplicates\<close> have a key that an earlier row has\<close>

lemma composite_parts_cong:
  "\<forall>c \<in> set kc. r c = r' c \<Longrightarrow>
   composite_parts L index r kc parts = composite_parts L index r' kc parts"
  by (induction kc arbitrary: parts) (simp_all add: Let_def)

lemma frame_key_cong:
  "map r kc = map r' kc \<Longrightarrow> frame_key L kc df r = frame_key L kc df r'"
proof -
  assume "map r kc = map r' kc"
  then have eq: "\<forall>c \<in> set kc. r c = r' c" by (simp add: map_eq_conv)
  show ?thesis
  proof (cases "kc = [''Account Number'']")
    case True
    then show ?thesis using eq by (simp add: frame_key_def)
  next
    case False
    then show ?thesis
      using composite_parts_cong [OF eq] by (simp add: frame_key_def composite_acct_key_def)
  qed
qed

lemma frame_key_columns:
  "columns df = columns df' \<Longrightarrow> frame_key L kc df = frame_key L kc df'"
  by (simp add: frame_key_def fun_eq_iff)

lemma firsts_drop_dups:
  assumes cong: "\<And>r r'. map r kc = map r' kc \<Longrightarrow> key r = key r'"
  shows "(\<And>r. map r kc \<in> set seenR \<Longrightarrow> (case key r of None \<Rightarrow> True | Some k \<Rightarrow> k \<in> seenK)) \<Longrightarrow>
         firsts seenK (keyed key (drop_dups kc seenR rs)) = firsts seenK (keyed key rs)"
proof (induction rs arbitrary: seenR seenK)
  case Nil
  show ?case by simp
next
  case (Cons r rs)
  show ?case
  proof (cases "map r kc \<in> set seenR")
    case True
    from Cons.prems [OF True] have skip: "firsts seenK (keyed key (r # rs)) = firsts seenK (keyed key rs)"
      by (cases "key r") (simp_all add: keyed_Cons)
    have "firsts seenK (keyed key (drop_dups kc seenR rs)) = firsts seenK (keyed key rs)"
      by (rule Cons.IH) (rule Cons.prems)
    then show ?thesis using True skip by simp
  next
    case False
    show ?thesis
    proof (cases "key r")
      case None
      have inv: "case key r' of None \<Rightarrow> True | Some k \<Rightarrow> k \<in> seenK"
        if "map r' kc \<in> set (map r kc # seenR)" for r'
      proof (cases "map r' kc = map r kc")
        case True
        then have "key r' = key r" by (rule cong)
        then show ?thesis using None by simp
      next
        case False
        then have "map r' kc \<in> set seenR" using that by (metis set_ConsD)
        from Cons.prems [OF this] show ?thesis .
      qed
      have "firsts seenK (keyed key (drop_dups kc (map r kc # seenR) rs)) =
          firsts seenK (keyed key rs)"
        by (rule Cons.IH) (rule inv)
      then show ?thesis using False None by (simp add: keyed_Cons)
    next
      case (Some k)
      show ?thesis
      proof (cases "k \<in> seenK")
        case True
        have inv: "case key r' of None \<Rightarrow> True | Some k \<Rightarrow> k \<in> seenK"
          if "map r' kc \<in> set (map r kc # seenR)" for r'
        proof (cases "map r' kc = map r kc")
          case eq: True
          then have "key r' = key r" by (rule cong)
          then show ?thesis using Some True by simp
        next
          case False
          then have "map r' kc \<in> set seenR" using that by (metis set_ConsD)
          from Cons.prems [OF this] show ?thesis .
        qed
        have "firsts seenK (keyed key (drop_dups kc (map r kc # seenR) rs)) =
            firsts seenK (keyed key rs)"
          by (rule Cons.IH) (rule inv)
        then show ?thesis using False Some True by (simp add: keyed_Cons)
      next
        case notseen: False
        have inv: "case key r' of None \<Rightarrow> True | Some k' \<Rightarrow> k' \<in> insert k seenK"
          if "map r' kc \<in> set (map r kc # seenR)" for r'
        proof (cases "map r' kc = map r kc")
          case True
          then have "key r' = key r" by (rule cong)
          then show ?thesis using Some by simp
        next
          case False
          then have "map r' kc \<in> set seenR" using that by (metis set_ConsD)
          from Cons.prems [OF this] show ?thesis by (cases "key r'") simp_all
        qed
        have "firsts (insert k seenK) (keyed key (drop_dups kc (map r kc # seenR) rs)) =
            firsts (insert k seenK) (keyed key rs)"
          by (rule Cons.IH) (rule inv)
        then show ?thesis using False Some notseen by (simp add: keyed_Cons)
      qed
    qed
  qed
qed

lemma firsts_drop_duplicates:
  "firsts {} (keyed (frame_key L kc (drop_duplicates kc df)) (rows (drop_duplicates kc df))) =
   firsts {} (keyed (frame_key L kc df) (rows df))"
proof -
  have c: "frame_key L kc \<lparr>columns = columns df, rows = drop_dups kc [] (rows df)\<rparr> =
      frame_key L kc df"
    by (rule frame_key_columns) simp
  have "firsts {} (keyed (frame_key L kc df) (drop_dups kc [] (rows df))) =
      firsts {} (keyed (frame_key L kc df) (rows df))"
    by (rule firsts_drop_dups) (simp_all add: frame_key_cong)
  then show ?thesis by (simp add: c drop_duplicates_def)
qed

text \<open>The comparison by account or composite key is a function of the first keyed rows
  of the two frames.\<close>

lemma dedup_map_match_rows:
  "map_match L cc kc (drop_duplicates kc dfo) (drop_duplicates kc dfw) st =
     rows_match L cc (firsts {} (keyed (frame_key L kc dfo) (rows dfo)))
       (firsts {} (keyed (frame_key L kc dfw) (rows dfw))) st"
  by (simp add: map_match_rows firsts_drop_duplicates)

lemma firsts_without_unkeyed:
  "key r = None \<Longrightarrow> firsts S (keyed key (xs @ r # ys)) = firsts S (keyed key (xs @ ys))"
  by (simp add: keyed_append keyed_Cons)


lemma compare_frames_map_mode:
  "sheet_name \<in> set [''ScheduleFA'', ''transaction_details'', ''transaction_details_by_gain'']
   \<Longrightarrow> ''Account Number'' \<in> set cc \<Longrightarrow>
   compare_frames L sheet_name cc A B =
     rows_match L cc
       (firsts {} (keyed (frame_key L (choose_key_cols (select_cols A cc) (select_cols B cc))
                            (select_cols A cc)) (rows A)))
       (firsts {} (keyed (frame_key L (choose_key_cols (select_cols A cc) (select_cols B cc))
                            (select_cols B cc)) (rows B)))
       (make_tripled_headers cc)"
proof -
  assume s: "sheet_name \<in> set [''ScheduleFA'', ''transaction_details'', ''transaction_details_by_gain'']"
    and a: "''Account Number'' \<in> set cc"
  have t: "sheet_name \<in> set tripled_sheets" "sheet_name \<noteq> ''Gain Summary''"
    using s by (auto simp: tripled_sheets_def)
  have c: "columns (select_cols A cc) = cc" "columns (select_cols B cc) = cc"
    "rows (select_cols A cc) = rows A" "rows (select_cols B cc) = rows B"
    by (simp_all add: select_cols_def)
  show ?thesis
    unfolding compare_frames_def Let_def
    using t a by (simp add: c dedup_map_match_rows)
qed

lemma select_cols_rows [simp]:
  "select_cols (A\<lparr>rows := rs\<rparr>) cc = (select_cols A cc)\<lparr>rows := rs\<rparr>"
  by (simp add: select_cols_def)

lemma choose_key_cols_rows [simp]:
  "choose_key_cols (A\<lparr>rows := rs\<rparr>) B = choose_key_cols A B"
  "choose_key_cols A (B\<lparr>rows := rs\<rparr>) = choose_key_cols A B"
  by (simp_all add: choose_key_cols_def)

lemma frame_key_rows [simp]:
  "frame_key L kc (A\<lparr>rows := rs\<rparr>) = frame_key L kc A"
  by (rule frame_key_columns) simp

lemma key_cols_of_common:
  "choose_key_cols (select_cols A cc) (select_cols B cc) =
   choose_key_cols (select_cols B cc) (select_cols A cc)"
  "frame_key L kc (select_cols A cc) = frame_key L kc (select_cols B cc)"
  by (simp_all add: choose_key_cols_def select_cols_def frame_key_def fun_eq_iff)

lemma composite_parts_None_iff:
  "composite_parts L index row kc parts = None \<longleftrightarrow>
     (\<exists>col \<in> set kc. col \<notin> set index \<or> row col = CNone \<or> strip (py_str L (row col)) = [])"
  by (induction kc arbitrary: parts) (simp_all add: Let_def)

lemma composite_acct_key_None_iff:
  "composite_acct_key L index row kc = None \<longleftrightarrow>
     (\<exists>col \<in> set kc. col \<notin> set index \<or> row col = CNone \<or> strip (py_str L (row col)) = [])"
proof -
  have "composite_acct_key L index row kc = None \<longleftrightarrow>
      composite_parts L index row kc [] = None"
    by (simp add: composite_acct_key_def split: option.splits)
  then show ?thesis by (simp only: composite_parts_None_iff)
qed

lemma composite_mode:
  assumes "set preferred_keys \<subseteq> set cc"
  shows "choose_key_cols (select_cols A cc) (select_cols B cc) = preferred_keys"
    and "frame_key L preferred_keys (select_cols A cc) r = composite_acct_key L cc r preferred_keys"
    and "''Account Number'' \<in> set cc"
proof -
  have "list_all (\<lambda>k. k \<in> set cc) preferred_keys" using assms by (auto simp: list_all_iff)
  then show "choose_key_cols (select_cols A cc) (select_cols B cc) = preferred_keys"
    by (simp add: choose_key_cols_def select_cols_def)
  show "frame_key L preferred_keys (select_cols A cc) r = composite_acct_key L cc r preferred_keys"
    by (simp add: frame_key_def preferred_keys_def select_cols_def)
  show "''Account Number'' \<in> set cc" using assms by (auto simp: preferred_keys_def)
qed

lemma map_mode_without_row:
  assumes s: "sheet_name \<in> set [''ScheduleFA'', ''transaction_details'',
                                 ''transaction_details_by_gain'']"
    and a: "''Account Number'' \<in> set cc"
    and f: "\<And>S. firsts S (keyed (frame_key L (choose_key_cols (select_cols A cc) (select_cols B cc))
                            (select_cols A cc)) (xs @ r # ys)) =
                 firsts S (keyed (frame_key L (choose_key_cols (select_cols A cc) (select_cols B cc))
                            (select_cols A cc)) (xs @ ys))"
  shows "compare_frames L sheet_name cc (A\<lparr>rows := xs @ r # ys\<rparr>) B =
         compare_frames L sheet_name cc (A\<lparr>rows := xs @ ys\<rparr>) B"
    and "compare_frames L sheet_name cc B (A\<lparr>rows := xs @ r # ys\<rparr>) =
         compare_frames L sheet_name cc B (A\<lparr>rows := xs @ ys\<rparr>)"
proof -
  show "compare_frames L sheet_name cc (A\<lparr>rows := xs @ r # ys\<rparr>) B =
         compare_frames L sheet_name cc (A\<lparr>rows := xs @ ys\<rparr>) B"
    by (simp add: compare_frames_map_mode [OF s a] f)
  have k: "choose_key_cols (select_cols B cc) (select_cols A cc) =
      choose_key_cols (select_cols A cc) (select_cols B cc)"
    by (rule key_cols_of_common)
  have fk: "frame_key L (choose_key_cols (select_cols A cc) (select_cols B cc)) (select_cols B cc) =
      frame_key L (choose_key_cols (select_cols A cc) (select_cols B cc)) (select_cols A cc)"
    by (rule key_cols_of_common)
  show "compare_frames L sheet_name cc B (A\<lparr>rows := xs @ r # ys\<rparr>) =
         compare_frames L sheet_name cc B (A\<lparr>rows := xs @ ys\<rparr>)"
    by (simp add: compare_frames_map_mode [OF s a] k fk f)
qed

subsection \<open>The examples, evaluated\<close>

lemma blank_cells:
  "blank_row ''Account Number'' = CInt 1" "blank_row ''Investment Name'' = CStr ''  ''"
  by (simp_all add: blank_row_def mk_row_def)

lemma blank_key: "composite_acct_key L blank_cols blank_row preferred_keys = None"
proof -
  have "strip (py_str L (blank_row ''Investment Name'')) = []"
    by (simp add: blank_cells py_str_def strip_def is_space_def)
  then show ?thesis
    by (simp add: composite_acct_key_None_iff preferred_keys_def)
qed

lemma blank_pref: "set preferred_keys \<subseteq> set blank_cols"
  by (simp add: preferred_keys_def blank_cols_def)

lemma blank_frames:
  "compare_frames L ''transaction_details'' blank_cols blank_orig blank_web =
     make_tripled_headers blank_cols"
proof -
  have s: "''transaction_details'' \<in> set [''ScheduleFA'', ''transaction_details'',
      ''transaction_details_by_gain'']" by simp
  have r: "rows blank_orig = [blank_row]" "rows blank_web = []"
    by (simp_all add: blank_orig_def blank_web_def)
  show ?thesis
    by (simp add: compare_frames_map_mode [OF s composite_mode(3) [OF blank_pref]]
        composite_mode [OF blank_pref] r keyed_Cons blank_key rows_match_def)
qed

lemma blank_sheet:
  "process_sheet L (one_sheet ''transaction_details'' blank_orig)
     (one_sheet ''transaction_details'' blank_web) ''transaction_details''
     [(''header_row'', 2), (''data_start_row'', 3)] =
   Inr (entry_of (make_tripled_headers blank_cols),
        summary_row ''transaction_details'' (make_tripled_headers blank_cols))"
proof -
  have c: "columns blank_orig = blank_cols" "columns blank_web = blank_cols"
    by (simp_all add: blank_orig_def blank_web_def)
  have f: "filter (\<lambda>c. c \<in> set blank_cols) blank_cols = blank_cols"
    "filter (\<lambda>c. c \<noteq> ''Sl. No.'') blank_cols = blank_cols"
    by (simp_all add: blank_cols_def)
  have n: "blank_cols \<noteq> []" by (simp add: blank_cols_def)
  show ?thesis
    by (simp add: process_sheet_def one_sheet_def c f n blank_frames Let_def)
qed





text \<open>
  C3, as the spec states it, fails in its second half. On the sheet
  \<open>transaction_details\<close> with the three preferred key columns, the one original row has
  a blank investment name, so its composite key is \<open>None\<close>; the comparison returns the
  header line alone in each of the four row lists and counts nothing: the row is neither
  only in original nor anywhere else.
\<close>

theorem unkeyed_row_disappears_counterexample:
  "composite_acct_key plain_lib blank_cols blank_row preferred_keys = None \<and>
   rows blank_orig = [blank_row] \<and>
   sheets (compare_excel_with_gain_summary_inline_India plain_lib
      (one_sheet ''transaction_details'' blank_orig) (one_sheet ''transaction_details'' blank_web)
      (Some blank_config)) =
     [(''transaction_details'',
       \<lparr>common_rows = [tripled_headers blank_cols],
        different_rows = [tripled_headers blank_cols],
        only_in_original_rows = [tripled_headers blank_cols],
        only_in_website_rows = [tripled_headers blank_cols],
        entry_rows_compared = 0, cells_different = 0, error = None\<rparr>)]"
proof -
  have r: "rows blank_orig = [blank_row]" by (simp add: blank_orig_def)
  show ?thesis
    by (simp add: blank_key r compare_excel_with_gain_summary_inline_India_def blank_config_def
        blank_sheet entry_of_def make_tripled_headers_def)
qed

text \<open>
  C3, amended. \<open>composite_acct_key\<close> returns \<open>None\<close> exactly when some key column is
  not a column of the row, or its cell is missing, or its text is blank. In composite-key
  mode a row with such a key is excluded from the keyed matching and from the output:
  the comparison of the sheet is the same with the row and without it, on the original
  side and on the website side, so the row is in none of the four row lists and in no
  count.
\<close>

theorem unkeyed_rows_left_out:
  "(composite_acct_key L index row key_cols = None \<longleftrightarrow>
      (\<exists>col \<in> set key_cols.
          col \<notin> set index \<or> row col = CNone \<or> strip (py_str L (row col)) = [])) \<and>
   (sheet_name \<in> set [''ScheduleFA'', ''transaction_details'', ''transaction_details_by_gain''] \<and>
    set preferred_keys \<subseteq> set cc \<and>
    composite_acct_key L cc r preferred_keys = None \<longrightarrow>
      compare_frames L sheet_name cc (A\<lparr>rows := xs @ r # ys\<rparr>) B =
        compare_frames L sheet_name cc (A\<lparr>rows := xs @ ys\<rparr>) B \<and>
      compare_frames L sheet_name cc B (A\<lparr>rows := xs @ r # ys\<rparr>) =
        compare_frames L sheet_name cc B (A\<lparr>rows := xs @ ys\<rparr>))"
proof (intro conjI impI)
  show "composite_acct_key L index row key_cols = None \<longleftrightarrow>
      (\<exists>col \<in> set key_cols.
          col \<notin> set index \<or> row col = CNone \<or> strip (py_str L (row col)) = [])"
    by (rule composite_acct_key_None_iff)
next
  assume h: "sheet_name \<in> set [''ScheduleFA'', ''transaction_details'',
        ''transaction_details_by_gain''] \<and>
    set preferred_keys \<subseteq> set cc \<and> composite_acct_key L cc r preferred_keys = None"
  then have s: "sheet_name \<in> set [''ScheduleFA'', ''transaction_details'',
        ''transaction_details_by_gain'']"
    and p: "set preferred_keys \<subseteq> set cc"
    and n: "composite_acct_key L cc r preferred_keys = None"
    by blast+
  have f: "firsts S (keyed (frame_key L (choose_key_cols (select_cols A cc) (select_cols B cc))
                            (select_cols A cc)) (xs @ r # ys)) =
           firsts S (keyed (frame_key L (choose_key_cols (select_cols A cc) (select_cols B cc))
                            (select_cols A cc)) (xs @ ys))" for S
    by (rule firsts_without_unkeyed) (simp add: composite_mode [OF p] n)
  show "compare_frames L sheet_name cc (A\<lparr>rows := xs @ r # ys\<rparr>) B =
        compare_frames L sheet_name cc (A\<lparr>rows := xs @ ys\<rparr>) B"
    by (rule map_mode_without_row(1) [OF s composite_mode(3) [OF p] f])
  show "compare_frames L sheet_name cc B (A\<lparr>rows := xs @ r # ys\<rparr>) =
        compare_frames L sheet_name cc B (A\<lparr>rows := xs @ ys\<rparr>)"
    by (rule map_mode_without_row(2) [OF s composite_mode(3) [OF p] f])
qed

theorem unkeyed_rows_left_out_witness:
  "''transaction_details'' \<in> set [''ScheduleFA'', ''transaction_details'',
      ''transaction_details_by_gain''] \<and>
   set preferred_keys \<subseteq> set blank_cols \<and>
   composite_acct_key plain_lib blank_cols blank_row preferred_keys = None \<and>
   compare_frames plain_lib ''transaction_details'' blank_cols
      (blank_web\<lparr>rows := [] @ blank_row # []\<rparr>) blank_web =
     compare_frames plain_lib ''transaction_details'' blank_cols
      (blank_web\<lparr>rows := [] @ []\<rparr>) blank_web"
proof -
  have s: "''transaction_details'' \<in> set [''ScheduleFA'', ''transaction_details'',
      ''transaction_details_by_gain'']" by simp
  have h: "''transaction_details'' \<in> set [''ScheduleFA'', ''transaction_details'',
      ''transaction_details_by_gain''] \<and>
    set preferred_keys \<subseteq> set blank_cols \<and>
    composite_acct_key plain_lib blank_cols blank_row preferred_keys = None"
    by (intro conjI s blank_pref blank_key)
  note t = conjunct1 [OF mp [OF conjunct2 [OF unkeyed_rows_left_out] h]]
  show ?thesis by (intro conjI s blank_pref blank_key t)
qed



end
